theory Spec2Isabelle
  imports Complex_Main "HOL-Library.Sublist" "HOL-Library.Char_ord" "HOL-Library.List_Lexorder"
begin

section \<open>Strings\<close>

text \<open>
  Python strings are modelled as \<open>string\<close>. The case conversions act on the ASCII
  letters and leave every other character alone, which is what \<open>str.lower\<close>,
  \<open>str.upper\<close> and \<open>str.title\<close> do on ASCII text; on letters outside ASCII Python
  converts more.
\<close>

definition is_upper :: "char \<Rightarrow> bool" where
  "is_upper c = (65 \<le> (of_char c :: nat) \<and> (of_char c :: nat) \<le> 90)"

definition is_lower :: "char \<Rightarrow> bool" where
  "is_lower c = (97 \<le> (of_char c :: nat) \<and> (of_char c :: nat) \<le> 122)"

definition lower_char :: "char \<Rightarrow> char" where
  "lower_char c = (if is_upper c then char_of ((of_char c :: nat) + 32) else c)"

definition upper_char :: "char \<Rightarrow> char" where
  "upper_char c = (if is_lower c then char_of ((of_char c :: nat) - 32) else c)"

definition lower :: "string \<Rightarrow> string" where
  "lower s = map lower_char s"

definition upper :: "string \<Rightarrow> string" where
  "upper s = map upper_char s"

text \<open>
  \<open>str.title\<close>: a letter that follows a non-letter is upper-cased, a letter that
  follows a letter is lower-cased.
\<close>

fun title_from :: "bool \<Rightarrow> string \<Rightarrow> string" where
  "title_from prev [] = []"
| "title_from prev (c # cs) =
     (if is_lower c then (if prev then c else upper_char c) # title_from True cs
      else if is_upper c then (if prev then lower_char c else c) # title_from True cs
      else c # title_from False cs)"

definition title_case :: "string \<Rightarrow> string" where
  "title_case s = title_from False s"

text \<open>\<open>str.strip\<close> with no argument removes white space at both ends.\<close>

definition is_space :: "char \<Rightarrow> bool" where
  "is_space c = (let n = (of_char c :: nat) in
     (9 \<le> n \<and> n \<le> 13) \<or> (28 \<le> n \<and> n \<le> 32) \<or> n = 133 \<or> n = 160)"

definition strip :: "string \<Rightarrow> string" where
  "strip s = rev (dropWhile is_space (rev (dropWhile is_space s)))"

text \<open>\<open>k in text\<close> on strings: \<open>k\<close> occurs in \<open>text\<close> as a contiguous run.\<close>

fun starts_with :: "string \<Rightarrow> string \<Rightarrow> bool" where
  "starts_with [] t = True"
| "starts_with (c # cs) [] = False"
| "starts_with (c # cs) (d # ds) = (c = d \<and> starts_with cs ds)"

fun str_in :: "string \<Rightarrow> string \<Rightarrow> bool" where
  "str_in k [] = (k = [])"
| "str_in k (d # ds) = (starts_with k (d # ds) \<or> str_in k ds)"

text \<open>\<open>str(n)\<close> for a non-negative integer, and \<open>sep.join(xs)\<close>.\<close>

definition digit_char :: "nat \<Rightarrow> char" where
  "digit_char d = ''0123456789'' ! d"

fun str_nat :: "nat \<Rightarrow> string" where
  "str_nat n = (if n < 10 then [digit_char n] else str_nat (n div 10) @ [digit_char (n mod 10)])"

fun join :: "string \<Rightarrow> string list \<Rightarrow> string" where
  "join sep [] = []"
| "join sep [x] = x"
| "join sep (x # y # ys) = x @ sep @ join sep (y # ys)"

section \<open>The roadmap data model (generator\_core.py)\<close>

datatype RoadmapStep = RoadmapStep
  (title: string)
  (objective: string)
  (duration_months: int)
  (prerequisites: "string list")
  (milestones: "string list")
  (resources: "string list")
  (tasks: "string list")
  (children: "RoadmapStep list")

record Roadmap =
  path_title :: string
  focus :: string
  confidence_score :: real
  steps :: "RoadmapStep list"

text \<open>
  An occupation of the corpus is a dictionary; the keys the pipeline reads are
  \<open>career\<close>, \<open>label\<close>, \<open>skills\<close> and \<open>tasks\<close>. A missing key is \<open>None\<close>.
\<close>

record occupation =
  c_career :: "string option"
  c_label :: "string option"
  c_skills :: "string list option"
  c_tasks :: "string list option"

datatype error = IndexError | KeyError | ValueError | CollaboratorError string

text \<open>\<open>career.get(key, [])\<close>\<close>

definition get_list :: "string list option \<Rightarrow> string list" where
  "get_list v = (case v of None \<Rightarrow> [] | Some xs \<Rightarrow> xs)"

section \<open>The random source\<close>

text \<open>
  \<open>random.sample\<close> reads the process-wide generator. The generator is modelled by the
  sequence of its upcoming draws, which every call consumes from the front:
  \<open>randbelow n\<close> reduces the next draw below \<open>n\<close>. \<open>random.sample(population, k)\<close>
  picks \<open>k\<close> positions of a pool without replacement, moving the last pool entry into
  the slot just taken, and raises \<open>ValueError\<close> when \<open>k\<close> exceeds the population.
  This is what CPython does for populations of up to 21 entries; for larger ones it
  picks positions by rejection, which yields a sample without replacement as well but
  not the same one from the same draws.
\<close>

type_synonym rng = "nat list"

fun randbelow :: "nat \<Rightarrow> rng \<Rightarrow> nat \<times> rng" where
  "randbelow n [] = (0, [])"
| "randbelow n (r # rs) = (r mod n, rs)"

fun sample_pool :: "string list \<Rightarrow> nat \<Rightarrow> rng \<Rightarrow> string list \<times> rng" where
  "sample_pool pool 0 g = ([], g)"
| "sample_pool pool (Suc k) g =
     (case randbelow (length pool) g of
        (j, g') \<Rightarrow>
          (case sample_pool (butlast (pool[j := last pool])) k g' of
             (xs, g'') \<Rightarrow> (pool ! j # xs, g'')))"

definition random_sample :: "string list \<Rightarrow> nat \<Rightarrow> rng \<Rightarrow> error + (string list \<times> rng)" where
  "random_sample population k g =
     (if length population < k then Inl ValueError else Inr (sample_pool population k g))"

section \<open>Step generation (generator\_core.py)\<close>

definition make_step ::
  "string \<Rightarrow> string \<Rightarrow> int \<Rightarrow> string list \<Rightarrow> string list \<Rightarrow> string list \<Rightarrow>
   string list \<Rightarrow> RoadmapStep list \<Rightarrow> RoadmapStep" where
  "make_step ttl obj months prereq mstones res tsks chldrn =
     RoadmapStep ttl obj months prereq mstones res tsks chldrn"

text \<open>\<open>get_tasks(count, fallback_prefix)\<close>, a closure over the occupation's tasks.\<close>

definition get_tasks ::
  "string list \<Rightarrow> nat \<Rightarrow> string \<Rightarrow> rng \<Rightarrow> error + (string list \<times> rng)" where
  "get_tasks career_tasks count fallback_prefix g =
     (if career_tasks \<noteq> []
      then random_sample career_tasks (min (length career_tasks) count) g
      else Inr (map (\<lambda>i. fallback_prefix @ '' '' @ str_nat (i + 1)) [0..<count], g))"

text \<open>\<open>step.duration_months += n\<close>\<close>

definition add_duration :: "int \<Rightarrow> RoadmapStep \<Rightarrow> RoadmapStep" where
  "add_duration n s =
     RoadmapStep (title s) (objective s) (duration_months s + n) (prerequisites s)
       (milestones s) (resources s) (tasks s) (children s)"

text \<open>
  The five phases of \<open>generate_steps_for_career\<close>, in the order the function builds
  them. The task lists returned by \<open>get_tasks\<close> are passed in.
  The nested helper \<open>get_milestones\<close> is never called and is not modelled.
\<close>

definition foundations_children :: "string \<Rightarrow> bool \<Rightarrow> string list \<Rightarrow> RoadmapStep list" where
  "foundations_children career_name beginner fund_tasks =
     (if beginner then
        [make_step ''Industry Fundamentals''
           (''Understand the core concepts of '' @ career_name)
           1
           []
           [''Complete introductory course'', ''Learn industry terminology'',
            ''Understand role responsibilities'']
           [''Online Courses'', ''Industry Glossaries'', ''Career Guides'']
           fund_tasks
           [],
         make_step ''Tools & Environment''
           ''Set up your professional workspace''
           1
           []
           [''Install necessary software'', ''Configure development/work environment'',
            ''Join professional communities'']
           [''Official Documentation'', ''Community Forums'']
           [''Research standard tools for '' @ career_name, ''Install primary software tools'',
            ''Create account on professional networks'']
           []]
      else [])"

definition foundations_step :: "string \<Rightarrow> bool \<Rightarrow> string list \<Rightarrow> RoadmapStep" where
  "foundations_step career_name beginner fund_tasks =
     make_step ''Foundations''
       ''Build essential groundwork for your career''
       (if beginner then 1 else 0)
       []
       [''Complete foundation modules'', ''Set up workspace'']
       [''Standard Industry Tools'']
       [''Set up your learning workspace'', ''Create a study schedule'',
        ''Join relevant online communities'']
       (foundations_children career_name beginner fund_tasks)"

definition core_child :: "string list \<Rightarrow> string list \<Rightarrow> nat \<Rightarrow> string \<Rightarrow> RoadmapStep" where
  "core_child career_tasks known i sk =
     (let related_tasks = filter (\<lambda>t. str_in (lower sk) (lower t)) career_tasks;
          step_tasks = (if related_tasks \<noteq> [] then take 3 related_tasks
                        else [''Practice '' @ sk @ '' fundamentals'',
                              ''Apply '' @ sk @ '' in small scenarios''])
      in make_step (title_case sk @ '' Proficiency'')
           (''Develop proficiency in '' @ sk)
           2
           (if i = 0 then take 2 known else [])
           [''Complete '' @ sk @ '' course'', ''Demonstrate '' @ sk @ '' usage'',
            ''Pass '' @ sk @ '' quiz'']
           [title_case sk @ '' Resources'']
           step_tasks
           [])"

definition core_children :: "string list \<Rightarrow> string list \<Rightarrow> string list \<Rightarrow> RoadmapStep list" where
  "core_children career_tasks known skills_to_learn =
     map (\<lambda>(i, sk). core_child career_tasks known i sk) (enumerate 0 skills_to_learn)"

definition core_step ::
  "string \<Rightarrow> string list \<Rightarrow> string list \<Rightarrow> string list \<Rightarrow> RoadmapStep" where
  "core_step career_name career_tasks known skills_to_learn =
     make_step ''Core Skills Development''
       (''Master essential skills for '' @ career_name)
       (max 2 (int (length (core_children career_tasks known skills_to_learn))))
       known
       [''Complete all core skill modules'', ''Pass skill assessments'']
       [''Online Learning Platforms'']
       [''Create a skills tracking spreadsheet'', ''Set up practice projects'', ''Find a mentor'']
       (core_children career_tasks known skills_to_learn)"

definition project_children ::
  "string list \<Rightarrow> string list \<Rightarrow> string list \<Rightarrow> string list \<Rightarrow> RoadmapStep list" where
  "project_children known missing proj1_tasks proj2_tasks =
     [make_step ''Applied Practice Project''
        ''Apply core skills in a realistic scenario''
        2
        (known @ take 2 missing)
        [''Design project scope'', ''Implement core features'', ''Document results'']
        [''Project Management Tools'', ''Documentation Tools'']
        ([''Select a real-world problem to solve'', ''Plan the solution''] @ proj1_tasks)
        [],
      make_step ''Advanced Capstone''
        ''Demonstrate comprehensive mastery''
        2
        (known @ take 3 missing)
        [''Complete complex project'', ''Peer review'', ''Final presentation'']
        [''Advanced Tools'']
        ([''Define advanced project requirements''] @ proj2_tasks)
        []]"

definition project_step ::
  "string list \<Rightarrow> string list \<Rightarrow> string list \<Rightarrow> string list \<Rightarrow> RoadmapStep" where
  "project_step known missing proj1_tasks proj2_tasks =
     make_step ''Practical Application''
       ''Gain hands-on experience through projects or simulations''
       (int (length (project_children known missing proj1_tasks proj2_tasks)))
       known
       [''Complete 2 major projects'', ''Build portfolio'']
       [''Portfolio Platform'']
       [''Research industry standard projects'', ''Document process and outcomes'']
       (project_children known missing proj1_tasks proj2_tasks)"

definition spec_children :: "string list \<Rightarrow> string list \<Rightarrow> string list \<Rightarrow> RoadmapStep list" where
  "spec_children known missing spec_tasks =
     [make_step ''Specialization Track''
        ''Deep dive into a specific area''
        2
        (known @ take 2 missing)
        [''Complete specialization course'', ''Advanced certification'',
         ''Master advanced concepts'']
        [''Specialized Training'']
        spec_tasks
        []]"

definition spec_step :: "string \<Rightarrow> string list \<Rightarrow> string list \<Rightarrow> string list \<Rightarrow> RoadmapStep" where
  "spec_step career_name known missing spec_tasks =
     make_step ''Specialization''
       ''Develop expertise in specific areas''
       2
       []
       [''Choose specialization'', ''Achieve advanced competency'']
       [''Industry Certifications'']
       [''Research trending specializations in '' @ career_name, ''Select a niche'']
       (spec_children known missing spec_tasks)"

definition job_children :: "string \<Rightarrow> string list \<Rightarrow> RoadmapStep list" where
  "job_children career_name skills_to_learn =
     [make_step ''Professional Branding''
        ''Create compelling professional presence''
        1
        []
        [''Update resume'', ''Optimize professional profile'', ''Build portfolio'']
        [''LinkedIn'', ''Resume Builder'']
        [''Tailor resume for '' @ career_name,
         ''Highlight key skills: '' @ join '', '' (take 3 skills_to_learn)]
        [],
      make_step ''Job Search Strategy''
        ''Execute systematic job search''
        1
        []
        [''Apply to positions'', ''Network'', ''Interview prep'']
        [''Job Boards'', ''Networking Events'']
        [''Identify top companies for '' @ career_name, ''Prepare for interviews'']
        []]"

definition job_step :: "string \<Rightarrow> string list \<Rightarrow> RoadmapStep" where
  "job_step career_name skills_to_learn =
     make_step ''Career Launch''
       ''Land your first role in the field''
       (int (length (job_children career_name skills_to_learn)))
       []
       [''Complete branding'', ''Secure job offer'']
       [''Job Search Platforms'']
       [''Develop job search strategy'', ''Practice interview questions'']
       (job_children career_name skills_to_learn)"

text \<open>
  \<open>generate_steps_for_career(career, profile_skills, focus, beginner)\<close>. The random
  source is threaded through the four \<open>get_tasks\<close> calls in the order the function makes
  them; the focus adjustment is the \<open>if/elif\<close> chain at its end.
\<close>

definition generate_steps_for_career ::
  "occupation \<Rightarrow> string list \<Rightarrow> string \<Rightarrow> bool \<Rightarrow> rng \<Rightarrow> error + (RoadmapStep list \<times> rng)" where
  "generate_steps_for_career career profile_skills foc beginner g0 =
     (let known = filter (\<lambda>s. s \<in> set profile_skills) (map lower (get_list (c_skills career)));
          missing = filter (\<lambda>s. s \<notin> set profile_skills) (map lower (get_list (c_skills career)));
          career_tasks = get_list (c_tasks career);
          career_name = (case c_career career of None \<Rightarrow> ''Career'' | Some n \<Rightarrow> n)
      in
      (case (if beginner then get_tasks career_tasks 5 ''Study fundamental concept'' g0
             else Inr ([], g0)) of
         Inl e \<Rightarrow> Inl e
       | Inr (fund_tasks, g1) \<Rightarrow>
      (let foundations = foundations_step career_name beginner fund_tasks;
           skills_to_learn = (if missing \<noteq> [] then take 4 missing
                              else take 4 (get_list (c_skills career)));
           core = core_step career_name career_tasks known skills_to_learn
       in
      (case get_tasks career_tasks 4 ''Implement basic feature'' g1 of
         Inl e \<Rightarrow> Inl e
       | Inr (proj1_tasks, g2) \<Rightarrow>
      (case get_tasks career_tasks 5 ''Implement advanced feature'' g2 of
         Inl e \<Rightarrow> Inl e
       | Inr (proj2_tasks, g3) \<Rightarrow>
      (let project = project_step known missing proj1_tasks proj2_tasks
       in
      (case get_tasks career_tasks 4 ''Study advanced topic'' g3 of
         Inl e \<Rightarrow> Inl e
       | Inr (spec_tasks, g4) \<Rightarrow>
      (let spec = spec_step career_name known missing spec_tasks;
           job = job_step career_name skills_to_learn
       in
       if foc = ''Depth'' then
         Inr ([foundations, add_duration 1 core, project, spec, job], g4)
       else if foc = ''Fast-Entry'' then
         Inr ([foundations, core, add_duration 1 project, spec, job], g4)
       else if foc = ''Transition'' then
         Inr ([foundations, core, project, spec, add_duration 1 job], g4)
       else Inr ([foundations, core, project, spec, job], g4)))))))))"

text \<open>
  \<open>generate_distinct_roadmaps(profile, top_career)\<close>: one call of the step generator
  per focus string, on the same occupation and skills; the random source moves on from
  call to call. The title is \<open>top_career.get('career') or top_career.get('label', 'Career')\<close>.
\<close>

definition focuses :: "string list" where
  "focuses = [''Depth'', ''Fast-Entry'', ''Transition'']"

definition roadmap_title :: "occupation \<Rightarrow> string" where
  "roadmap_title top_career =
     (case c_career top_career of
        Some n \<Rightarrow> if n \<noteq> [] then n
                  else (case c_label top_career of None \<Rightarrow> ''Career'' | Some l \<Rightarrow> l)
      | None \<Rightarrow> (case c_label top_career of None \<Rightarrow> ''Career'' | Some l \<Rightarrow> l))"

fun roadmaps_for ::
  "string list \<Rightarrow> string list \<Rightarrow> occupation \<Rightarrow> rng \<Rightarrow> error + (Roadmap list \<times> rng)" where
  "roadmaps_for [] profile_skills top_career g = Inr ([], g)"
| "roadmaps_for (f # fs) profile_skills top_career g =
     (case generate_steps_for_career top_career profile_skills f True g of
        Inl e \<Rightarrow> Inl e
      | Inr (stps, g') \<Rightarrow>
          (case roadmaps_for fs profile_skills top_career g' of
             Inl e \<Rightarrow> Inl e
           | Inr (rms, g'') \<Rightarrow>
               Inr (\<lparr>path_title = roadmap_title top_career, focus = f,
                     confidence_score = 8 / 10, steps = stps\<rparr> # rms, g'')))"

definition generate_distinct_roadmaps ::
  "string list \<Rightarrow> occupation \<Rightarrow> rng \<Rightarrow> error + (Roadmap list \<times> rng)" where
  "generate_distinct_roadmaps profile_skills top_career g =
     roadmaps_for focuses profile_skills top_career g"

section \<open>The corpus loader (generator.py)\<close>






section \<open>Skill resolution (generator.py)\<close>

text \<open>
  \<open>SKILL_VOCAB = sorted({s.lower() for c in CAREER_DATASET for s in c.get('skills', [])})\<close>.
  The functions below take the corpus \<open>CAREER_DATASET\<close> as a parameter; the running
  program passes them what \<open>load_career_dataset\<close> returned.
\<close>

definition SKILL_VOCAB :: "occupation list \<Rightarrow> string list" where
  "SKILL_VOCAB corpus = sort (remdups (concat (map (\<lambda>c. map lower (get_list (c_skills c))) corpus)))"

text \<open>
  The two library calls of the resolver are collaborators. \<open>query_skill(s, k=1)\<close>
  returns the neighbours and their similarities, or raises; it is a parameter of type
  \<open>string \<Rightarrow> error + (string list \<times> real list)\<close>. Similarities are taken as real
  numbers and the threshold as the exact 0.6, where the program compares a 32-bit float
  with a float literal. \<open>process.extractOne(s, SKILL_VOCAB, scorer=fuzz.token_sort_ratio)\<close> scans
  the choices in order and keeps a choice only when it scores strictly above the best so
  far, so it returns the first choice of maximal score, and \<open>None\<close> when there is no
  choice; the scorer is a parameter.
\<close>

fun extract_loop ::
  "(string \<Rightarrow> string \<Rightarrow> real) \<Rightarrow> string \<Rightarrow> string list \<Rightarrow> (string \<times> real) option \<Rightarrow>
   (string \<times> real) option" where
  "extract_loop scorer q [] best = best"
| "extract_loop scorer q (c # cs) best =
     (if (case best of None \<Rightarrow> True | Some b \<Rightarrow> snd b < scorer q c)
      then extract_loop scorer q cs (Some (c, scorer q c))
      else extract_loop scorer q cs best)"

definition extractOne ::
  "(string \<Rightarrow> string \<Rightarrow> real) \<Rightarrow> string \<Rightarrow> string list \<Rightarrow> (string \<times> real) option" where
  "extractOne scorer q choices = extract_loop scorer q choices None"

text \<open>
  The fallback of \<open>normalize_skills\<close> for one (already stripped) skill:
  \<open>best[0] if best else s.lower()\<close>.
\<close>

definition fuzzy_fallback :: "(string \<Rightarrow> string \<Rightarrow> real) \<Rightarrow> string list \<Rightarrow> string \<Rightarrow> string" where
  "fuzzy_fallback scorer vocab s =
     (case extractOne scorer s vocab of Some best \<Rightarrow> fst best | None \<Rightarrow> lower s)"

text \<open>
  The body of the first loop of \<open>normalize_skills\<close>. Inside the \<open>try\<close>, \<open>d[0]\<close> is
  read first and \<open>nn[0]\<close> only when the threshold is passed; either read raises
  \<open>IndexError\<close> on an empty sequence, and every exception of the block is swallowed and
  leads to the fallback.
\<close>

definition normalize_one ::
  "(string \<Rightarrow> error + (string list \<times> real list)) \<Rightarrow> (string \<Rightarrow> string \<Rightarrow> real) \<Rightarrow>
   string list \<Rightarrow> string \<Rightarrow> string" where
  "normalize_one query_skill scorer vocab raw =
     (let s = strip raw in
      case query_skill s of
        Inl e \<Rightarrow> fuzzy_fallback scorer vocab s
      | Inr (nn, d) \<Rightarrow>
          (case d of
             [] \<Rightarrow> fuzzy_fallback scorer vocab s
           | d0 # ds \<Rightarrow>
               if 6 / 10 < d0
               then (case nn of [] \<Rightarrow> fuzzy_fallback scorer vocab s | n0 # ns \<Rightarrow> n0)
               else fuzzy_fallback scorer vocab s))"

text \<open>The second loop: \<open>seen\<close> collects each token the first time it occurs.\<close>

fun dedupe :: "string list \<Rightarrow> string list \<Rightarrow> string list" where
  "dedupe seen [] = seen"
| "dedupe seen (x # xs) = (if x \<notin> set seen then dedupe (seen @ [x]) xs else dedupe seen xs)"

definition normalize_skills ::
  "(string \<Rightarrow> error + (string list \<times> real list)) \<Rightarrow> (string \<Rightarrow> string \<Rightarrow> real) \<Rightarrow>
   string list \<Rightarrow> string list \<Rightarrow> string list" where
  "normalize_skills query_skill scorer vocab raw_skills =
     dedupe [] (map (normalize_one query_skill scorer vocab) raw_skills)"

section \<open>Quiz heuristic (generator.py)\<close>

definition type_to_skills :: "string \<Rightarrow> string list" where
  "type_to_skills t =
     (if t = ''A'' then [''python'', ''analysis'', ''sql'', ''data visualization'']
      else if t = ''B'' then [''communication'', ''teaching'', ''empathy'', ''presentation'']
      else if t = ''C'' then [''design'', ''creativity'', ''ui/ux'', ''writing'']
      else if t = ''D'' then [''project management'', ''organization'', ''planning'', ''leadership'']
      else [])"

text \<open>
  \<open>tallied[sk] = tallied.get(sk, 0) + 1\<close> on a dictionary, which keeps its keys in the
  order of their first insertion.
\<close>

fun tally :: "string \<Rightarrow> (string \<times> nat) list \<Rightarrow> (string \<times> nat) list" where
  "tally sk [] = [(sk, 1)]"
| "tally sk ((k, n) # kvs) = (if k = sk then (k, n + 1) # kvs else (k, n) # tally sk kvs)"

text \<open>
  \<open>list.sort(key=..., reverse=True)\<close> and \<open>sorted(..., reverse=True)\<close>: the list is
  reversed, sorted stably in ascending key order, and reversed again.
\<close>

definition sort_reverse :: "('a \<Rightarrow> 'k::linorder) \<Rightarrow> 'a list \<Rightarrow> 'a list" where
  "sort_reverse key xs = rev (sort_key key (rev xs))"

definition derive_skills_from_quiz :: "string option list \<Rightarrow> string list" where
  "derive_skills_from_quiz answers =
     (let tallied = fold (\<lambda>ans acc.
            fold tally (type_to_skills (upper (case ans of None \<Rightarrow> [] | Some t \<Rightarrow> t))) acc)
            answers [];
          ranked = sort_reverse snd tallied
      in map fst (take 8 ranked))"

section \<open>Career matching and the request handler (generator.py)\<close>

record user_input =
  u_skills :: "string list"
  u_answers :: "string option list"
  u_education :: string
  u_summary :: "string option"

text \<open>The result dictionary; \<open>images\<close> is absent until the diagrams have been drawn.\<close>

record response =
  o_input :: user_input
  derived_skills :: "string list"
  chosen_career :: string
  roadmaps :: "Roadmap list"
  images :: "string list option"

text \<open>
  The score of one occupation, the body of the scoring loop. Python's floats are taken as
  exact real numbers: two scores that are equal here can differ by rounding in the
  program.
\<close>

definition career_score :: "string list \<Rightarrow> string option \<Rightarrow> occupation \<Rightarrow> real" where
  "career_score skills summary c =
     (let cskills = map lower (get_list (c_skills c));
          overlap = card (set skills \<inter> set cskills);
          kw_bonus = (if list_ex (\<lambda>k. str_in k (lower (case summary of None \<Rightarrow> [] | Some t \<Rightarrow> t)))
                           (take 5 cskills)
                      then 2 / 10 else 0)
      in real overlap / real (max 1 (if length cskills \<noteq> 0 then length cskills else 1)) + kw_bonus)"

text \<open>
  Scoring, the descending sort and the choice of \<open>top\<close>:
  \<open>top = scored[0][0] if scored else CAREER_DATASET[0]\<close>, where indexing an empty
  corpus raises \<open>IndexError\<close>.
\<close>

definition select_top :: "occupation list \<Rightarrow> string list \<Rightarrow> string option \<Rightarrow> error + occupation" where
  "select_top corpus skills summary =
     (let scored = sort_reverse snd (map (\<lambda>c. (c, career_score skills summary c)) corpus)
      in case scored of
           x # xs \<Rightarrow> Inr (fst x)
         | [] \<Rightarrow> (case corpus of [] \<Rightarrow> Inl IndexError | c # cs \<Rightarrow> Inr c))"

text \<open>
  The handler up to the assembly of \<open>out\<close>. \<open>top['career']\<close> raises \<open>KeyError\<close> when
  the chosen occupation has no such key.
  The attempt to build the semantic index comes after
  the skills have been resolved, swallows its own failure and touches the index files
  only; it has no part in the result and is left out. Turning the dataclasses into
  dictionaries changes the representation, not the content.
\<close>

definition compute_output ::
  "(string \<Rightarrow> error + (string list \<times> real list)) \<Rightarrow> (string \<Rightarrow> string \<Rightarrow> real) \<Rightarrow>
   occupation list \<Rightarrow> user_input \<Rightarrow> rng \<Rightarrow> error + (response \<times> rng)" where
  "compute_output query_skill scorer corpus inp g =
     (let derived = derive_skills_from_quiz (u_answers inp);
          skills = normalize_skills query_skill scorer (SKILL_VOCAB corpus) (u_skills inp @ derived)
      in case select_top corpus skills (u_summary inp) of
           Inl e \<Rightarrow> Inl e
         | Inr top_career \<Rightarrow>
             (case generate_distinct_roadmaps skills top_career g of
                Inl e \<Rightarrow> Inl e
              | Inr (rms, g') \<Rightarrow>
                  (case c_career top_career of
                     None \<Rightarrow> Inl KeyError
                   | Some name \<Rightarrow>
                       Inr (\<lparr>o_input = inp, derived_skills = skills, chosen_career = name,
                             roadmaps = rms, images = None\<rparr>, g'))))"

text \<open>
  The export collaborators: drawing the diagrams (\<open>_plot_roadmaps\<close>) and the two JSON
  dumps. Each may raise; \<open>None\<close> is success. When drawing succeeds the image URLs are
  \<open>/static/roadmaps/roadmap_{idx+1}.png\<close>, one per roadmap.
\<close>

record exporter =
  draw :: "Roadmap list \<Rightarrow> error option"
  dump_latest :: "response \<Rightarrow> error option"
  dump_archive :: "response \<Rightarrow> error option"

definition plot_roadmaps :: "exporter \<Rightarrow> Roadmap list \<Rightarrow> error + string list" where
  "plot_roadmaps ex rms =
     (case draw ex rms of
        Some e \<Rightarrow> Inl e
      | None \<Rightarrow> Inr (map (\<lambda>idx. ''/static/roadmaps/roadmap_'' @ str_nat (idx + 1) @ ''.png'')
                       [0..<length rms]))"

definition export_output :: "exporter \<Rightarrow> response \<Rightarrow> error + response" where
  "export_output ex out =
     (case plot_roadmaps ex (roadmaps out) of
        Inl e \<Rightarrow> Inl e
      | Inr image_urls \<Rightarrow>
          (let out' = out\<lparr>images := Some image_urls\<rparr>
           in case dump_latest ex out' of
                Some e \<Rightarrow> Inl e
              | None \<Rightarrow> (case dump_archive ex out' of Some e \<Rightarrow> Inl e | None \<Rightarrow> Inr out')))"

definition generate_roadmaps_for_user ::
  "exporter \<Rightarrow> (string \<Rightarrow> error + (string list \<times> real list)) \<Rightarrow> (string \<Rightarrow> string \<Rightarrow> real) \<Rightarrow>
   occupation list \<Rightarrow> user_input \<Rightarrow> rng \<Rightarrow> error + (response \<times> rng)" where
  "generate_roadmaps_for_user ex query_skill scorer corpus inp g =
     (case compute_output query_skill scorer corpus inp g of
        Inl e \<Rightarrow> Inl e
      | Inr (out, g') \<Rightarrow>
          (case export_output ex out of Inl e \<Rightarrow> Inl e | Inr out' \<Rightarrow> Inr (out', g')))"


section \<open>Auxiliary notions for the statements\<close>

text \<open>
  What \<open>get_tasks\<close> returns when it returns, the four task lists one call of the step
  generator draws, the five phases before the focus adjustment, and the adjustment
  itself as a function of the focus string.
\<close>

definition draw_tasks :: "string list \<Rightarrow> nat \<Rightarrow> string \<Rightarrow> rng \<Rightarrow> string list \<times> rng" where
  "draw_tasks career_tasks count fallback_prefix g =
     (if career_tasks \<noteq> [] then sample_pool career_tasks (min (length career_tasks) count) g
      else (map (\<lambda>i. fallback_prefix @ '' '' @ str_nat (i + 1)) [0..<count], g))"

definition phases ::
  "occupation \<Rightarrow> string list \<Rightarrow> bool \<Rightarrow> string list \<Rightarrow> string list \<Rightarrow> string list \<Rightarrow>
   string list \<Rightarrow> RoadmapStep list" where
  "phases career profile_skills beginner fund_tasks proj1_tasks proj2_tasks spec_tasks =
     (let known = filter (\<lambda>s. s \<in> set profile_skills) (map lower (get_list (c_skills career)));
          missing = filter (\<lambda>s. s \<notin> set profile_skills) (map lower (get_list (c_skills career)));
          career_tasks = get_list (c_tasks career);
          career_name = (case c_career career of None \<Rightarrow> ''Career'' | Some n \<Rightarrow> n);
          skills_to_learn = (if missing \<noteq> [] then take 4 missing
                             else take 4 (get_list (c_skills career)))
      in [foundations_step career_name beginner fund_tasks,
          core_step career_name career_tasks known skills_to_learn,
          project_step known missing proj1_tasks proj2_tasks,
          spec_step career_name known missing spec_tasks,
          job_step career_name skills_to_learn])"

definition tailor :: "string \<Rightarrow> RoadmapStep list \<Rightarrow> RoadmapStep list" where
  "tailor foc ss =
     (if foc = ''Depth'' then ss[1 := add_duration 1 (ss ! 1)]
      else if foc = ''Fast-Entry'' then ss[2 := add_duration 1 (ss ! 2)]
      else if foc = ''Transition'' then ss[4 := add_duration 1 (ss ! 4)]
      else ss)"

definition draws :: "occupation \<Rightarrow> bool \<Rightarrow> rng \<Rightarrow> (string list \<times> string list \<times> string list \<times> string list) \<times> rng" where
  "draws career beginner g0 =
    (let ct = get_list (c_tasks career);
         d1 = (if beginner then draw_tasks ct 5 ''Study fundamental concept'' g0 else ([], g0));
         d2 = draw_tasks ct 4 ''Implement basic feature'' (snd d1);
         d3 = draw_tasks ct 5 ''Implement advanced feature'' (snd d2);
         d4 = draw_tasks ct 4 ''Study advanced topic'' (snd d3)
     in ((fst d1, fst d2, fst d3, fst d4), snd d4))"

definition phases_of ::
  "occupation \<Rightarrow> string list \<Rightarrow> bool \<Rightarrow>
   string list \<times> string list \<times> string list \<times> string list \<Rightarrow> RoadmapStep list" where
  "phases_of career profile_skills beginner q =
     (case q of (t1, t2, t3, t4) \<Rightarrow> phases career profile_skills beginner t1 t2 t3 t4)"

definition untimed :: "RoadmapStep \<Rightarrow> RoadmapStep" where
  "untimed s = add_duration (- duration_months s) s"

fun no_tasks :: "RoadmapStep \<Rightarrow> RoadmapStep" where
  "no_tasks (RoadmapStep t ob d p m r ts ch) = RoadmapStep t ob d p m r [] (map no_tasks ch)"

text \<open>The fallback task names of \<open>get_tasks\<close>.\<close>

definition placeholders :: "string \<Rightarrow> nat \<Rightarrow> string list" where
  "placeholders p n = map (\<lambda>i. p @ '' '' @ str_nat (i + 1)) [0..<n]"

text \<open>Example occupations.\<close>

definition bare_occupation :: occupation where
  "bare_occupation = \<lparr>c_career = None, c_label = None, c_skills = None, c_tasks = Some []\<rparr>"

definition data_analyst :: occupation where
  "data_analyst = \<lparr>c_career = Some ''Data Analyst'', c_label = None,
     c_skills = Some [''python'', ''sql'', ''data visualization'', ''pandas''],
     c_tasks = Some [''Clean data'', ''Build dashboards'']\<rparr>"

definition tutor :: occupation where
  "tutor = \<lparr>c_career = Some ''Tutor'', c_label = None,
     c_skills = Some [''Teaching'', ''empathy''], c_tasks = Some [''Plan lessons'']\<rparr>"

definition dba :: occupation where
  "dba = \<lparr>c_career = Some ''Database Administrator'', c_label = None,
     c_skills = Some [''SQL'', ''sql''], c_tasks = None\<rparr>"

text \<open>Example collaborators of the resolver.\<close>

definition stale_index :: "string \<Rightarrow> error + (string list \<times> real list)" where
  "stale_index s = Inr ([''sql''], [6 / 10])"

definition prefers_python :: "string \<Rightarrow> string \<Rightarrow> real" where
  "prefers_python q c = (if c = ''python'' then 90 else 10)"

definition no_index :: "string \<Rightarrow> error + (string list \<times> real list)" where
  "no_index s = Inl (CollaboratorError ''skill_index.faiss is missing'')"

definition exact_lower :: "string \<Rightarrow> string \<Rightarrow> real" where
  "exact_lower q c = (if lower q = c then 100 else 0)"

definition flaky_index :: "string \<Rightarrow> error + (string list \<times> real list)" where
  "flaky_index s =
     (if s = ''Rust'' then Inl (CollaboratorError ''index read failed'')
      else Inr ([''python''], [9 / 10]))"

text \<open>Example export collaborators and an example request.\<close>

definition broken_plotter :: exporter where
  "broken_plotter = \<lparr>draw = (\<lambda>rms. Some (CollaboratorError ''savefig failed'')),
     dump_latest = (\<lambda>out. None), dump_archive = (\<lambda>out. None)\<rparr>"

definition quiet_exporter :: exporter where
  "quiet_exporter = \<lparr>draw = (\<lambda>rms. None), dump_latest = (\<lambda>out. None),
     dump_archive = (\<lambda>out. None)\<rparr>"


definition request :: user_input where
  "request = \<lparr>u_skills = [''Python''], u_answers = [], u_education = [], u_summary = None\<rparr>"

section \<open>Facts about the step generator\<close>

lemma get_tasks_Inr: "get_tasks ct n p g = Inr (draw_tasks ct n p g)"
  by (simp add: get_tasks_def draw_tasks_def random_sample_def)

lemma list5_upd:
  "[a, b, c, d, e][1 := x] = [a, x, c, d, e]"
  "[a, b, c, d, e][2 := x] = [a, b, x, d, e]"
  "[a, b, c, d, e][4 := x] = [a, b, c, d, x]"
  "[a, b, c, d, e] ! 1 = b" "[a, b, c, d, e] ! 2 = c" "[a, b, c, d, e] ! 4 = e"
  by (simp_all add: numeral_eq_Suc)

lemma tailor5:
  "tailor foc [a, b, c, d, e] =
     (if foc = ''Depth'' then [a, add_duration 1 b, c, d, e]
      else if foc = ''Fast-Entry'' then [a, b, add_duration 1 c, d, e]
      else if foc = ''Transition'' then [a, b, c, d, add_duration 1 e]
      else [a, b, c, d, e])"
  unfolding tailor_def list5_upd by (rule refl)

lemma generate_steps_eq:
  assumes "draws career b g = ((t1, t2, t3, t4), g')"
  shows "generate_steps_for_career career sk foc b g =
     Inr (tailor foc (phases career sk b t1 t2 t3 t4), g')"
proof -
  define ct where "ct = get_list (c_tasks career)"
  obtain u1 g1 where d1:
    "(if b then draw_tasks ct 5 ''Study fundamental concept'' g else ([], g)) = (u1, g1)"
    by (cases "if b then draw_tasks ct 5 ''Study fundamental concept'' g else ([], g)")
  obtain u2 g2 where d2: "draw_tasks ct 4 ''Implement basic feature'' g1 = (u2, g2)"
    by (cases "draw_tasks ct 4 ''Implement basic feature'' g1")
  obtain u3 g3 where d3: "draw_tasks ct 5 ''Implement advanced feature'' g2 = (u3, g3)"
    by (cases "draw_tasks ct 5 ''Implement advanced feature'' g2")
  obtain u4 g4 where d4: "draw_tasks ct 4 ''Study advanced topic'' g3 = (u4, g4)"
    by (cases "draw_tasks ct 4 ''Study advanced topic'' g3")
  have "draws career b g = ((u1, u2, u3, u4), g4)"
    unfolding draws_def Let_def ct_def[symmetric] d1 fst_conv snd_conv d2 d3 d4 by (rule refl)
  with assms have eqs: "t1 = u1" "t2 = u2" "t3 = u3" "t4 = u4" "g' = g4" by simp_all
  have first: "(if b then get_tasks ct 5 ''Study fundamental concept'' g else Inr ([], g))
      = Inr (u1, g1)"
    using d1 by (cases b) (simp_all add: get_tasks_Inr)
  show ?thesis
    apply (simp only: generate_steps_for_career_def Let_def)
    apply (simp only: ct_def[symmetric])
    apply (simp only: first sum.case prod.case)
    apply (simp only: get_tasks_Inr d2 d3 d4 sum.case prod.case)
    apply (simp only: phases_def Let_def tailor5 eqs ct_def[symmetric])
    apply simp
    done
qed

lemma generate_steps_draws:
  "generate_steps_for_career career sk foc b g =
     Inr (tailor foc (phases_of career sk b (fst (draws career b g))), snd (draws career b g))"
proof -
  obtain t1 t2 t3 t4 g' where d: "draws career b g = ((t1, t2, t3, t4), g')"
    by (metis prod.collapse)
  show ?thesis
    unfolding generate_steps_eq[OF d] d phases_of_def by simp
qed

lemma untimed_add_duration: "untimed (add_duration n s) = untimed s"
  by (simp add: untimed_def add_duration_def)

lemma untimed_tailor5:
  "map untimed (tailor foc [a, b, c, d, e]) = map untimed [a, b, c, d, e]"
  by (simp add: tailor5 untimed_add_duration)

lemma phases_titles:
  "map title (phases career sk b t1 t2 t3 t4) =
     [''Foundations'', ''Core Skills Development'', ''Practical Application'',
      ''Specialization'', ''Career Launch'']"
  by (simp add: phases_def Let_def foundations_step_def core_step_def project_step_def
      spec_step_def job_step_def make_step_def)

lemma length_phases: "length (phases career sk b t1 t2 t3 t4) = 5"
  by (simp add: phases_def Let_def)

lemma title_add_duration: "title (add_duration n s) = title s"
  by (simp add: add_duration_def)

lemma phases_list:
  "\<exists>a b' c d e. phases career sk b t1 t2 t3 t4 = [a, b', c, d, e]"
  by (simp add: phases_def Let_def)

lemma tailor_titles:
  "map title (tailor foc (phases career sk b t1 t2 t3 t4)) =
     [''Foundations'', ''Core Skills Development'', ''Practical Application'',
      ''Specialization'', ''Career Launch'']"
proof -
  obtain a b' c d e where p: "phases career sk b t1 t2 t3 t4 = [a, b', c, d, e]"
    using phases_list by blast
  have "map title (tailor foc [a, b', c, d, e]) = map title [a, b', c, d, e]"
    by (simp add: tailor5 title_add_duration)
  then show ?thesis using phases_titles[of career sk b t1 t2 t3 t4] unfolding p by simp
qed

lemma phases_durations:
  "map duration_months (phases career sk True t1 t2 t3 t4) =
     [1, max 2 (int (length (children (phases career sk True t1 t2 t3 t4 ! 1)))), 2, 2, 2]"
  by (simp add: phases_def Let_def foundations_step_def core_step_def project_step_def
      spec_step_def job_step_def make_step_def project_children_def job_children_def)

lemma add_duration_sel:
  "title (add_duration n s) = title s"
  "objective (add_duration n s) = objective s"
  "duration_months (add_duration n s) = duration_months s + n"
  "prerequisites (add_duration n s) = prerequisites s"
  "milestones (add_duration n s) = milestones s"
  "resources (add_duration n s) = resources s"
  "tasks (add_duration n s) = tasks s"
  "children (add_duration n s) = children s"
  by (simp_all add: add_duration_def)

lemma foundations_step_sel:
  "title (foundations_step nm b t) = ''Foundations''"
  "duration_months (foundations_step nm b t) = (if b then 1 else 0)"
  "prerequisites (foundations_step nm b t) = []"
  "children (foundations_step nm b t) = foundations_children nm b t"
  by (simp_all add: foundations_step_def make_step_def)

lemma core_step_sel:
  "title (core_step nm ct kn sl) = ''Core Skills Development''"
  "duration_months (core_step nm ct kn sl) = max 2 (int (length (core_children ct kn sl)))"
  "prerequisites (core_step nm ct kn sl) = kn"
  "children (core_step nm ct kn sl) = core_children ct kn sl"
  by (simp_all add: core_step_def make_step_def)

lemma project_step_sel:
  "title (project_step kn ms t2 t3) = ''Practical Application''"
  "duration_months (project_step kn ms t2 t3) = 2"
  "prerequisites (project_step kn ms t2 t3) = kn"
  "children (project_step kn ms t2 t3) = project_children kn ms t2 t3"
  by (simp_all add: project_step_def make_step_def project_children_def)

lemma spec_step_sel:
  "title (spec_step nm kn ms t4) = ''Specialization''"
  "duration_months (spec_step nm kn ms t4) = 2"
  "prerequisites (spec_step nm kn ms t4) = []"
  "children (spec_step nm kn ms t4) = spec_children kn ms t4"
  by (simp_all add: spec_step_def make_step_def)

lemma job_step_sel:
  "title (job_step nm sl) = ''Career Launch''"
  "duration_months (job_step nm sl) = 2"
  "prerequisites (job_step nm sl) = []"
  "children (job_step nm sl) = job_children nm sl"
  by (simp_all add: job_step_def make_step_def job_children_def)

lemma children_prerequisites:
  "map prerequisites (foundations_children nm b t) = (if b then [[], []] else [])"
  "map prerequisites (project_children kn ms t2 t3) = [kn @ take 2 ms, kn @ take 3 ms]"
  "map prerequisites (spec_children kn ms t4) = [kn @ take 2 ms]"
  "map prerequisites (job_children nm sl) = [[], []]"
  by (simp_all add: foundations_children_def project_children_def spec_children_def
      job_children_def make_step_def)

lemma children_tasks:
  "tasks (foundations_children nm True t ! 0) = t"
  "tasks (project_children kn ms t2 t3 ! 0) =
     [''Select a real-world problem to solve'', ''Plan the solution''] @ t2"
  "tasks (project_children kn ms t2 t3 ! Suc 0) = [''Define advanced project requirements''] @ t3"
  "tasks (spec_children kn ms t4 ! 0) = t4"
  by (simp_all add: foundations_children_def project_children_def spec_children_def make_step_def)

lemma core_children_Nil: "core_children ct kn [] = []"
  by (simp add: core_children_def)

lemma children_no_prerequisites:
  "list_all (\<lambda>c. prerequisites c = []) (foundations_children nm b t)"
  "list_all (\<lambda>c. prerequisites c = []) (project_children [] [] t2 t3)"
  "list_all (\<lambda>c. prerequisites c = []) (spec_children [] [] t4)"
  "list_all (\<lambda>c. prerequisites c = []) (job_children nm sl)"
  by (simp_all add: foundations_children_def project_children_def spec_children_def
      job_children_def make_step_def)

lemma no_skills_no_prerequisites:
  assumes "get_list (c_skills career) = []"
  shows "children (tailor foc (phases career sk b t1 t2 t3 t4) ! 1) = [] \<and>
     list_all (\<lambda>s. prerequisites s = [] \<and> list_all (\<lambda>c. prerequisites c = []) (children s))
       (tailor foc (phases career sk b t1 t2 t3 t4))"
  by (simp add: assms phases_def tailor5 Let_def add_duration_sel foundations_step_sel
      core_step_sel project_step_sel spec_step_sel job_step_sel core_children_Nil
      children_no_prerequisites)

lemma sampled_tasks_positions:
  "tasks (children (tailor foc (phases career sk True t1 t2 t3 t4) ! 0) ! 0) = t1"
  "tasks (children (tailor foc (phases career sk b t1 t2 t3 t4) ! 2) ! 0) =
     [''Select a real-world problem to solve'', ''Plan the solution''] @ t2"
  "tasks (children (tailor foc (phases career sk b t1 t2 t3 t4) ! 2) ! Suc 0) =
     [''Define advanced project requirements''] @ t3"
  "tasks (children (tailor foc (phases career sk b t1 t2 t3 t4) ! 3) ! 0) = t4"
  by (simp_all add: phases_def tailor5 Let_def add_duration_sel foundations_step_sel
      core_step_sel project_step_sel spec_step_sel job_step_sel children_tasks)

lemma draw_tasks_Nil: "draw_tasks [] n p g = (placeholders p n, g)"
  by (simp add: draw_tasks_def placeholders_def)

lemma draws_no_tasks:
  assumes "get_list (c_tasks career) = []"
  shows "draws career b g =
     ((if b then placeholders ''Study fundamental concept'' 5 else [],
       placeholders ''Implement basic feature'' 4,
       placeholders ''Implement advanced feature'' 5,
       placeholders ''Study advanced topic'' 4), g)"
  by (simp add: draws_def Let_def assms draw_tasks_Nil)

lemma placeholders_4:
  "placeholders p 4 = [p @ '' 1'', p @ '' 2'', p @ '' 3'', p @ '' 4'']"
  by (simp add: placeholders_def upt_rec digit_char_def)

lemma placeholders_5:
  "placeholders p 5 = [p @ '' 1'', p @ '' 2'', p @ '' 3'', p @ '' 4'', p @ '' 5'']"
  by (simp add: placeholders_def upt_rec digit_char_def)

lemma tailor_titles_of:
  "map title (tailor foc (phases_of career sk b q)) =
     [''Foundations'', ''Core Skills Development'', ''Practical Application'',
      ''Specialization'', ''Career Launch'']"
  by (cases q) (simp add: phases_of_def tailor_titles)

section \<open>Synthesis completeness\<close>

text \<open>
  Claim C7. For every occupation, skill list, focus string, beginner flag and state of
  the random source, the step generator returns (it raises nothing) exactly the five
  phases Foundations, Core Skills Development, Practical Application, Specialization,
  Career Launch, in this order. When the occupation has no skills, Core Skills
  Development has no sub-step and no step or sub-step has a prerequisite; when it has no
  tasks, the random source is not consumed and every sampled task list is the list of
  synthetic placeholder names.
\<close>

theorem synthesis_completeness:
  "\<exists>ss g'. generate_steps_for_career career sk foc b g = Inr (ss, g') \<and>
     map title ss = [''Foundations'', ''Core Skills Development'', ''Practical Application'',
                     ''Specialization'', ''Career Launch''] \<and>
     (get_list (c_skills career) = [] \<longrightarrow>
        children (ss ! 1) = [] \<and>
        list_all (\<lambda>s. prerequisites s = [] \<and>
                      list_all (\<lambda>c. prerequisites c = []) (children s)) ss) \<and>
     (get_list (c_tasks career) = [] \<longrightarrow>
        g' = g \<and>
        (b \<longrightarrow> tasks (children (ss ! 0) ! 0) =
           [''Study fundamental concept 1'', ''Study fundamental concept 2'',
            ''Study fundamental concept 3'', ''Study fundamental concept 4'',
            ''Study fundamental concept 5'']) \<and>
        tasks (children (ss ! 2) ! 0) =
           [''Select a real-world problem to solve'', ''Plan the solution'',
            ''Implement basic feature 1'', ''Implement basic feature 2'',
            ''Implement basic feature 3'', ''Implement basic feature 4''] \<and>
        tasks (children (ss ! 2) ! 1) =
           [''Define advanced project requirements'',
            ''Implement advanced feature 1'', ''Implement advanced feature 2'',
            ''Implement advanced feature 3'', ''Implement advanced feature 4'',
            ''Implement advanced feature 5''] \<and>
        tasks (children (ss ! 3) ! 0) =
           [''Study advanced topic 1'', ''Study advanced topic 2'',
            ''Study advanced topic 3'', ''Study advanced topic 4''])"
proof -
  obtain t1 t2 t3 t4 g' where d: "draws career b g = ((t1, t2, t3, t4), g')"
    by (metis prod.collapse)
  let ?ss = "tailor foc (phases career sk b t1 t2 t3 t4)"
  have run: "generate_steps_for_career career sk foc b g = Inr (?ss, g')"
    by (rule generate_steps_eq[OF d])
  have titles: "map title ?ss = [''Foundations'', ''Core Skills Development'',
      ''Practical Application'', ''Specialization'', ''Career Launch'']"
    by (rule tailor_titles)
  have skills: "get_list (c_skills career) = [] \<longrightarrow>
        children (?ss ! 1) = [] \<and>
        list_all (\<lambda>s. prerequisites s = [] \<and>
                      list_all (\<lambda>c. prerequisites c = []) (children s)) ?ss"
    using no_skills_no_prerequisites by blast
  have tsks: "get_list (c_tasks career) = [] \<longrightarrow>
        g' = g \<and>
        (b \<longrightarrow> tasks (children (?ss ! 0) ! 0) = placeholders ''Study fundamental concept'' 5) \<and>
        tasks (children (?ss ! 2) ! 0) =
           [''Select a real-world problem to solve'', ''Plan the solution''] @
           placeholders ''Implement basic feature'' 4 \<and>
        tasks (children (?ss ! 2) ! 1) =
           [''Define advanced project requirements''] @
           placeholders ''Implement advanced feature'' 5 \<and>
        tasks (children (?ss ! 3) ! 0) = placeholders ''Study advanced topic'' 4"
  proof
    assume e: "get_list (c_tasks career) = []"
    from d draws_no_tasks[OF e, of b g]
    have eqs: "t1 = (if b then placeholders ''Study fundamental concept'' 5 else [])"
      "t2 = placeholders ''Implement basic feature'' 4"
      "t3 = placeholders ''Implement advanced feature'' 5"
      "t4 = placeholders ''Study advanced topic'' 4" "g' = g"
      by simp_all
    show "g' = g \<and>
        (b \<longrightarrow> tasks (children (?ss ! 0) ! 0) = placeholders ''Study fundamental concept'' 5) \<and>
        tasks (children (?ss ! 2) ! 0) =
           [''Select a real-world problem to solve'', ''Plan the solution''] @
           placeholders ''Implement basic feature'' 4 \<and>
        tasks (children (?ss ! 2) ! 1) =
           [''Define advanced project requirements''] @
           placeholders ''Implement advanced feature'' 5 \<and>
        tasks (children (?ss ! 3) ! 0) = placeholders ''Study advanced topic'' 4"
      by (cases b) (simp_all add: sampled_tasks_positions eqs)
  qed
  show ?thesis
    apply (rule exI[of _ ?ss], rule exI[of _ g'])
    using run titles skills tsks
    by (simp add: placeholders_4 placeholders_5)
qed

theorem synthesis_completeness_witness:
  "get_list (c_skills bare_occupation) = [] \<and> get_list (c_tasks bare_occupation) = [] \<and>
   (\<exists>ss. generate_steps_for_career bare_occupation [''python''] ''Depth'' True [3, 1, 4] =
            Inr (ss, [3, 1, 4]) \<and>
         map title ss = [''Foundations'', ''Core Skills Development'', ''Practical Application'',
                         ''Specialization'', ''Career Launch''] \<and>
         children (ss ! 1) = [] \<and>
         tasks (children (ss ! 3) ! 0) =
           [''Study advanced topic 1'', ''Study advanced topic 2'',
            ''Study advanced topic 3'', ''Study advanced topic 4''])"
proof -
  have h1: "get_list (c_skills bare_occupation) = []"
    by (simp add: bare_occupation_def get_list_def)
  have h2: "get_list (c_tasks bare_occupation) = []"
    by (simp add: bare_occupation_def get_list_def)
  show ?thesis
    using synthesis_completeness[of bare_occupation "[''python'']" "''Depth''" True "[3, 1, 4]"]
      h1 h2
    by auto
qed

section \<open>Unrecognised focus strings\<close>

lemma tailor_unrecognised: "foc \<notin> set focuses \<Longrightarrow> tailor foc ss = ss"
  by (simp add: tailor_def focuses_def)

lemma tailor_recognised:
  "tailor ''Depth'' ss = ss[1 := add_duration 1 (ss ! 1)]"
  "tailor ''Fast-Entry'' ss = ss[2 := add_duration 1 (ss ! 2)]"
  "tailor ''Transition'' ss = ss[4 := add_duration 1 (ss ! 4)]"
  by (simp_all add: tailor_def)

text \<open>
  Claim C10. The step generator compares the focus with the strings \<open>Depth\<close>,
  \<open>Fast-Entry\<close> and \<open>Transition\<close>. With any other focus string (and the default
  \<open>beginner = True\<close>) no duration is adjusted: the phases last 1,
  \<open>max(2, number of core sub-steps)\<close>, 2, 2 and 2 months. The run with a recognised
  focus, on the same occupation, skills and draws of the random source, returns the same
  five steps except that one step (index 1, 2 or 4) has one month more; no other field
  differs.
\<close>

theorem unrecognised_focus_no_adjustment:
  assumes "foc \<notin> set focuses"
  shows "\<exists>ss g'. generate_steps_for_career career sk foc True g = Inr (ss, g') \<and>
     map duration_months ss = [1, max 2 (int (length (children (ss ! 1)))), 2, 2, 2] \<and>
     generate_steps_for_career career sk ''Depth'' True g =
       Inr (ss[1 := add_duration 1 (ss ! 1)], g') \<and>
     generate_steps_for_career career sk ''Fast-Entry'' True g =
       Inr (ss[2 := add_duration 1 (ss ! 2)], g') \<and>
     generate_steps_for_career career sk ''Transition'' True g =
       Inr (ss[4 := add_duration 1 (ss ! 4)], g')"
proof -
  obtain t1 t2 t3 t4 g' where d: "draws career True g = ((t1, t2, t3, t4), g')"
    by (metis prod.collapse)
  let ?ss = "phases career sk True t1 t2 t3 t4"
  have base: "generate_steps_for_career career sk foc True g = Inr (?ss, g')"
    using generate_steps_eq[OF d, of sk foc] tailor_unrecognised[OF assms] by simp
  have durations:
    "map duration_months ?ss = [1, max 2 (int (length (children (?ss ! 1)))), 2, 2, 2]"
    by (rule phases_durations)
  have depth: "generate_steps_for_career career sk ''Depth'' True g =
      Inr (?ss[1 := add_duration 1 (?ss ! 1)], g')"
    unfolding generate_steps_eq[OF d] tailor_recognised by (rule refl)
  have fast: "generate_steps_for_career career sk ''Fast-Entry'' True g =
      Inr (?ss[2 := add_duration 1 (?ss ! 2)], g')"
    unfolding generate_steps_eq[OF d] tailor_recognised by (rule refl)
  have transition: "generate_steps_for_career career sk ''Transition'' True g =
      Inr (?ss[4 := add_duration 1 (?ss ! 4)], g')"
    unfolding generate_steps_eq[OF d] tailor_recognised by (rule refl)
  show ?thesis
    by (rule exI[of _ ?ss], rule exI[of _ g'])
       (intro conjI base durations depth fast transition)
qed

theorem unrecognised_focus_no_adjustment_witness:
  "''FastEntry'' \<notin> set focuses \<and>
   (\<exists>ss g'. generate_steps_for_career data_analyst [''python'', ''sql''] ''FastEntry'' True [1, 0, 1] =
        Inr (ss, g') \<and>
      map duration_months ss = [1, max 2 (int (length (children (ss ! 1)))), 2, 2, 2] \<and>
      generate_steps_for_career data_analyst [''python'', ''sql''] ''Fast-Entry'' True [1, 0, 1] =
        Inr (ss[2 := add_duration 1 (ss ! 2)], g'))"
proof -
  have h: "''FastEntry'' \<notin> set focuses"
    by (simp add: focuses_def)
  show ?thesis
    using unrecognised_focus_no_adjustment[OF h, of data_analyst "[''python'', ''sql'']" "[1, 0, 1]"] h
    by auto
qed

section \<open>Focus isolation\<close>

lemma generate_distinct_roadmaps_eq:
  "generate_distinct_roadmaps sk c g =
     Inr ([\<lparr>path_title = roadmap_title c, focus = ''Depth'', confidence_score = 8 / 10,
             steps = tailor ''Depth'' (phases_of c sk True (fst (draws c True g)))\<rparr>,
           \<lparr>path_title = roadmap_title c, focus = ''Fast-Entry'', confidence_score = 8 / 10,
             steps = tailor ''Fast-Entry''
               (phases_of c sk True (fst (draws c True (snd (draws c True g)))))\<rparr>,
           \<lparr>path_title = roadmap_title c, focus = ''Transition'', confidence_score = 8 / 10,
             steps = tailor ''Transition''
               (phases_of c sk True
                  (fst (draws c True (snd (draws c True (snd (draws c True g)))))))\<rparr>],
          snd (draws c True (snd (draws c True (snd (draws c True g))))))"
  by (simp add: generate_distinct_roadmaps_def focuses_def generate_steps_draws)

lemma untimed_tailor: "map untimed (tailor foc (phases c sk b t1 t2 t3 t4)) =
    map untimed (phases c sk b t1 t2 t3 t4)"
proof -
  obtain a b' c' d e where p: "phases c sk b t1 t2 t3 t4 = [a, b', c', d, e]"
    using phases_list by blast
  show ?thesis unfolding p by (rule untimed_tailor5)
qed

lemma no_tasks_untimed:
  "no_tasks (untimed s) =
     RoadmapStep (title s) (objective s) 0 (prerequisites s) (milestones s) (resources s) []
       (map no_tasks (children s))"
  by (cases s) (simp add: untimed_def add_duration_def)

lemma sampled_children_no_tasks:
  "map no_tasks (foundations_children nm b t1) = map no_tasks (foundations_children nm b [])"
  "map no_tasks (project_children kn ms t2 t3) = map no_tasks (project_children kn ms [] [])"
  "map no_tasks (spec_children kn ms t4) = map no_tasks (spec_children kn ms [])"
  by (simp_all add: foundations_children_def project_children_def spec_children_def make_step_def)

lemma foundations_step_frame:
  "objective (foundations_step nm b t) = ''Build essential groundwork for your career''"
  "milestones (foundations_step nm b t) = [''Complete foundation modules'', ''Set up workspace'']"
  "resources (foundations_step nm b t) = [''Standard Industry Tools'']"
  "tasks (foundations_step nm b t) =
     [''Set up your learning workspace'', ''Create a study schedule'',
      ''Join relevant online communities'']"
  by (simp_all add: foundations_step_def make_step_def)

lemma project_step_frame:
  "objective (project_step kn ms t2 t3) =
     ''Gain hands-on experience through projects or simulations''"
  "milestones (project_step kn ms t2 t3) = [''Complete 2 major projects'', ''Build portfolio'']"
  "resources (project_step kn ms t2 t3) = [''Portfolio Platform'']"
  "tasks (project_step kn ms t2 t3) =
     [''Research industry standard projects'', ''Document process and outcomes'']"
  by (simp_all add: project_step_def make_step_def)

lemma spec_step_frame:
  "objective (spec_step nm kn ms t4) = ''Develop expertise in specific areas''"
  "milestones (spec_step nm kn ms t4) =
     [''Choose specialization'', ''Achieve advanced competency'']"
  "resources (spec_step nm kn ms t4) = [''Industry Certifications'']"
  "tasks (spec_step nm kn ms t4) =
     [''Research trending specializations in '' @ nm, ''Select a niche'']"
  by (simp_all add: spec_step_def make_step_def)

lemma no_tasks_untimed_step:
  "no_tasks (untimed (foundations_step nm b t1)) = no_tasks (untimed (foundations_step nm b []))"
  "no_tasks (untimed (project_step kn ms t2 t3)) = no_tasks (untimed (project_step kn ms [] []))"
  "no_tasks (untimed (spec_step nm kn ms t4)) = no_tasks (untimed (spec_step nm kn ms []))"
  unfolding no_tasks_untimed foundations_step_sel foundations_step_frame project_step_sel
    project_step_frame spec_step_sel spec_step_frame
  using sampled_children_no_tasks by simp_all

lemma skeleton_phases:
  "map (no_tasks \<circ> untimed) (phases c sk b t1 t2 t3 t4) =
   map (no_tasks \<circ> untimed) (phases c sk b [] [] [] [])"
  unfolding phases_def Let_def list.map comp_apply
  using no_tasks_untimed_step by simp

lemma skeleton_tailor:
  "map (no_tasks \<circ> untimed) (tailor foc (phases c sk b t1 t2 t3 t4)) =
   map (no_tasks \<circ> untimed) (phases c sk b [] [] [] [])"
proof -
  have "map (no_tasks \<circ> untimed) (tailor foc (phases c sk b t1 t2 t3 t4)) =
      map no_tasks (map untimed (tailor foc (phases c sk b t1 t2 t3 t4)))"
    by simp
  also have "\<dots> = map no_tasks (map untimed (phases c sk b t1 t2 t3 t4))"
    by (simp only: untimed_tailor)
  also have "\<dots> = map (no_tasks \<circ> untimed) (phases c sk b t1 t2 t3 t4)"
    by simp
  finally have "map (no_tasks \<circ> untimed) (tailor foc (phases c sk b t1 t2 t3 t4)) =
      map (no_tasks \<circ> untimed) (phases c sk b t1 t2 t3 t4)" .
  then show ?thesis by (rule trans[OF _ skeleton_phases])
qed

lemma tasks_tailor:
  "map tasks (tailor foc (phases c sk b t1 t2 t3 t4)) = map tasks (phases c sk b [] [] [] [])"
  by (simp add: phases_def Let_def tailor5 add_duration_sel foundations_step_frame
      project_step_frame spec_step_frame)

lemma fixed_children_tailor:
  "children (tailor foc (phases c sk b t1 t2 t3 t4) ! 1) = children (phases c sk b [] [] [] [] ! 1)"
  "children (tailor foc (phases c sk b t1 t2 t3 t4) ! 4) = children (phases c sk b [] [] [] [] ! 4)"
  "children (tailor foc (phases c sk True t1 t2 t3 t4) ! 0) ! Suc 0 =
     children (phases c sk True [] [] [] [] ! 0) ! Suc 0"
  by (simp_all add: phases_def Let_def tailor5 add_duration_sel foundations_step_sel
      foundations_children_def)

lemma durations_tailor:
  "map duration_months (tailor ''Depth'' (phases c sk True t1 t2 t3 t4)) =
     [1, max 2 (int (length (children (phases c sk True [] [] [] [] ! 1)))) + 1, 2, 2, 2]"
  "map duration_months (tailor ''Fast-Entry'' (phases c sk True t1 t2 t3 t4)) =
     [1, max 2 (int (length (children (phases c sk True [] [] [] [] ! 1)))), 3, 2, 2]"
  "map duration_months (tailor ''Transition'' (phases c sk True t1 t2 t3 t4)) =
     [1, max 2 (int (length (children (phases c sk True [] [] [] [] ! 1)))), 2, 2, 3]"
  by (simp_all add: phases_def Let_def tailor5 add_duration_sel foundations_step_sel
      core_step_sel project_step_sel spec_step_sel job_step_sel)

lemma randbelow_one: "fst (randbelow (Suc 0) g) = 0"
  by (cases g) simp_all

lemma sample_pool_single: "fst (sample_pool [t] (Suc 0) g) = [t]"
  using randbelow_one[of g] by (simp add: split_beta)

lemma draw_tasks_small:
  assumes "length ct \<le> 1"
  shows "fst (draw_tasks ct n p g) = fst (draw_tasks ct n p g')"
proof (cases ct)
  case Nil
  then show ?thesis by (simp add: draw_tasks_def)
next
  case (Cons t ts)
  with assms have ct: "ct = [t]" by simp
  show ?thesis
  proof (cases n)
    case 0
    then show ?thesis by (simp add: draw_tasks_def ct)
  next
    case (Suc m)
    then have "min (length ct) n = Suc 0" by (simp add: ct)
    then show ?thesis
      by (simp add: draw_tasks_def ct sample_pool_single del: sample_pool.simps)
  qed
qed

lemma draws_small:
  assumes "length (get_list (c_tasks c)) \<le> 1"
  shows "fst (draws c b g) = fst (draws c b g')"
  using draw_tasks_small[OF assms]
  by (simp add: draws_def Let_def)


lemma phases_of_split:
  "phases_of c sk b q = phases c sk b (fst q) (fst (snd q)) (fst (snd (snd q))) (snd (snd (snd q)))"
  by (simp add: phases_of_def split_beta)

text \<open>
  Claim C1, as amended. One pass of \<open>generate_distinct_roadmaps\<close> returns three
  roadmaps, for \<open>Depth\<close>, \<open>Fast-Entry\<close> and \<open>Transition\<close>. Their phase durations are
  the baseline \<open>[1, n, 2, 2, 2]\<close> (\<open>n\<close> the larger of 2 and the number of core
  sub-steps) with one month more on Core Skills Development, Practical Application and
  Career Launch respectively. Apart from the top-level durations and the task lists, the
  three step trees are equal (\<open>no_tasks \<circ> untimed\<close> erases exactly these); the tasks of
  the five phases, the sub-steps of Core Skills Development and of Career Launch, and the
  Tools and Environment sub-step are equal too. The remaining task lists are drawn by
  \<open>random.sample\<close> anew for every roadmap; when the occupation has at most one task the
  draws cannot differ and the three trees agree in everything but the top-level
  durations.
\<close>

theorem focus_isolation_up_to_sampling:
  "\<exists>d f t g'. generate_distinct_roadmaps sk career g = Inr ([d, f, t], g') \<and>
     focus d = ''Depth'' \<and> focus f = ''Fast-Entry'' \<and> focus t = ''Transition'' \<and>
     (\<exists>n. n = max 2 (int (length (children (steps d ! 1)))) \<and>
        map duration_months (steps d) = [1, n + 1, 2, 2, 2] \<and>
        map duration_months (steps f) = [1, n, 3, 2, 2] \<and>
        map duration_months (steps t) = [1, n, 2, 2, 3]) \<and>
     map (no_tasks \<circ> untimed) (steps d) = map (no_tasks \<circ> untimed) (steps f) \<and>
     map (no_tasks \<circ> untimed) (steps f) = map (no_tasks \<circ> untimed) (steps t) \<and>
     map tasks (steps d) = map tasks (steps f) \<and>
     map tasks (steps f) = map tasks (steps t) \<and>
     children (steps d ! 1) = children (steps f ! 1) \<and>
     children (steps f ! 1) = children (steps t ! 1) \<and>
     children (steps d ! 4) = children (steps f ! 4) \<and>
     children (steps f ! 4) = children (steps t ! 4) \<and>
     children (steps d ! 0) ! 1 = children (steps f ! 0) ! 1 \<and>
     children (steps f ! 0) ! 1 = children (steps t ! 0) ! 1 \<and>
     (length (get_list (c_tasks career)) \<le> 1 \<longrightarrow>
        map untimed (steps d) = map untimed (steps f) \<and>
        map untimed (steps f) = map untimed (steps t))"
proof -
  define g1 where "g1 = snd (draws career True g)"
  define g2 where "g2 = snd (draws career True g1)"
  define g3 where "g3 = snd (draws career True g2)"
  define q1 where "q1 = fst (draws career True g)"
  define q2 where "q2 = fst (draws career True g1)"
  define q3 where "q3 = fst (draws career True g2)"
  define sd where "sd = tailor ''Depth'' (phases_of career sk True q1)"
  define sf where "sf = tailor ''Fast-Entry'' (phases_of career sk True q2)"
  define st where "st = tailor ''Transition'' (phases_of career sk True q3)"
  define d where "d = \<lparr>path_title = roadmap_title career, focus = ''Depth'',
    confidence_score = 8 / 10, steps = sd\<rparr>"
  define f where "f = \<lparr>path_title = roadmap_title career, focus = ''Fast-Entry'',
    confidence_score = 8 / 10, steps = sf\<rparr>"
  define t where "t = \<lparr>path_title = roadmap_title career, focus = ''Transition'',
    confidence_score = 8 / 10, steps = st\<rparr>"
  have run: "generate_distinct_roadmaps sk career g = Inr ([d, f, t], g3)"
    unfolding generate_distinct_roadmaps_eq d_def f_def t_def sd_def sf_def st_def
      q1_def q2_def q3_def g1_def g2_def g3_def by (rule refl)
  have sel: "focus d = ''Depth''" "focus f = ''Fast-Entry''" "focus t = ''Transition''"
    "steps d = sd" "steps f = sf" "steps t = st"
    by (simp_all add: d_def f_def t_def)
  note defs = sd_def sf_def st_def phases_of_split
  have c1: "children (sd ! 1) = children (phases career sk True [] [] [] [] ! 1)"
    "children (sf ! 1) = children (phases career sk True [] [] [] [] ! 1)"
    "children (st ! 1) = children (phases career sk True [] [] [] [] ! 1)"
    unfolding defs by (rule fixed_children_tailor)+
  have c4: "children (sd ! 4) = children (phases career sk True [] [] [] [] ! 4)"
    "children (sf ! 4) = children (phases career sk True [] [] [] [] ! 4)"
    "children (st ! 4) = children (phases career sk True [] [] [] [] ! 4)"
    unfolding defs by (rule fixed_children_tailor)+
  have c0: "children (sd ! 0) ! Suc 0 = children (phases career sk True [] [] [] [] ! 0) ! Suc 0"
    "children (sf ! 0) ! Suc 0 = children (phases career sk True [] [] [] [] ! 0) ! Suc 0"
    "children (st ! 0) ! Suc 0 = children (phases career sk True [] [] [] [] ! 0) ! Suc 0"
    unfolding defs by (rule fixed_children_tailor)+
  have dur: "map duration_months sd =
      [1, max 2 (int (length (children (phases career sk True [] [] [] [] ! 1)))) + 1, 2, 2, 2]"
    "map duration_months sf =
      [1, max 2 (int (length (children (phases career sk True [] [] [] [] ! 1)))), 3, 2, 2]"
    "map duration_months st =
      [1, max 2 (int (length (children (phases career sk True [] [] [] [] ! 1)))), 2, 2, 3]"
    unfolding defs by (rule durations_tailor)+
  have skel: "map (no_tasks \<circ> untimed) sd = map (no_tasks \<circ> untimed) (phases career sk True [] [] [] [])"
    "map (no_tasks \<circ> untimed) sf = map (no_tasks \<circ> untimed) (phases career sk True [] [] [] [])"
    "map (no_tasks \<circ> untimed) st = map (no_tasks \<circ> untimed) (phases career sk True [] [] [] [])"
    unfolding defs by (rule skeleton_tailor)+
  have tsk: "map tasks sd = map tasks (phases career sk True [] [] [] [])"
    "map tasks sf = map tasks (phases career sk True [] [] [] [])"
    "map tasks st = map tasks (phases career sk True [] [] [] [])"
    unfolding defs by (rule tasks_tailor)+
  have small: "length (get_list (c_tasks career)) \<le> 1 \<longrightarrow>
      map untimed sd = map untimed sf \<and> map untimed sf = map untimed st"
  proof
    assume a: "length (get_list (c_tasks career)) \<le> 1"
    have "q2 = q1" "q3 = q1"
      unfolding q1_def q2_def q3_def by (rule draws_small[OF a])+
    then show "map untimed sd = map untimed sf \<and> map untimed sf = map untimed st"
      unfolding defs by (simp only: untimed_tailor simp_thms)
  qed
  show ?thesis
    apply (rule exI[of _ d], rule exI[of _ f], rule exI[of _ t], rule exI[of _ g3])
    using run small
    by (simp add: sel c1[unfolded One_nat_def] c4 c0 dur[unfolded One_nat_def] skel tsk)
qed

theorem focus_isolation_up_to_sampling_witness:
  "length (get_list (c_tasks tutor)) \<le> 1 \<and>
   (\<exists>d f t g'. generate_distinct_roadmaps [''teaching''] tutor [5, 7] = Inr ([d, f, t], g') \<and>
      map untimed (steps d) = map untimed (steps f) \<and>
      map untimed (steps f) = map untimed (steps t))"
proof -
  have h: "length (get_list (c_tasks tutor)) \<le> 1"
    by (simp add: tutor_def get_list_def)
  show ?thesis
    using focus_isolation_up_to_sampling[of "[''teaching'']" tutor "[5, 7]"] h
    by auto
qed

text \<open>
  Claim C1 as stated fails: with two occupation tasks and a random source whose ninth
  draw is odd, the Industry Fundamentals sub-step of the \<open>Depth\<close> roadmap and that of the
  \<open>Fast-Entry\<close> roadmap, produced by the same pass, carry the tasks in different order.
\<close>

lemma draws_data_analyst:
  "draws data_analyst True [0, 0, 0, 0, 0, 0, 0, 0, 3] =
     (([''Clean data'', ''Build dashboards''], [''Clean data'', ''Build dashboards''],
       [''Clean data'', ''Build dashboards''], [''Clean data'', ''Build dashboards'']), [3])"
  "draws data_analyst True [3] =
     (([''Build dashboards'', ''Clean data''], [''Clean data'', ''Build dashboards''],
       [''Clean data'', ''Build dashboards''], [''Clean data'', ''Build dashboards'']), [])"
  by code_simp+

theorem focus_isolation_counterexample:
  "tasks (children (steps (fst (projr (generate_distinct_roadmaps [''python'', ''sql'']
      data_analyst [0, 0, 0, 0, 0, 0, 0, 0, 3])) ! 0) ! 0) ! 0) =
     [''Clean data'', ''Build dashboards''] \<and>
   tasks (children (steps (fst (projr (generate_distinct_roadmaps [''python'', ''sql'']
      data_analyst [0, 0, 0, 0, 0, 0, 0, 0, 3])) ! 1) ! 0) ! 0) =
     [''Build dashboards'', ''Clean data'']"
  by (simp add: generate_distinct_roadmaps_eq draws_data_analyst phases_of_def
      sampled_tasks_positions)

section \<open>Skill resolution\<close>

lemma extract_loop_Some: "\<exists>r. extract_loop scorer q cs (Some b) = Some r"
  by (induction cs arbitrary: b) auto

lemma extractOne_None_iff: "extractOne scorer q cs = None \<longleftrightarrow> cs = []"
proof (cases cs)
  case Nil
  then show ?thesis by (simp add: extractOne_def)
next
  case (Cons c cs')
  then show ?thesis
    using extract_loop_Some[of scorer q cs' "(c, scorer q c)"]
    by (auto simp: extractOne_def)
qed

lemma extract_loop_best:
  assumes "extract_loop scorer q cs best = Some r"
    and "\<And>b. best = Some b \<Longrightarrow> snd b = scorer q (fst b)"
  shows "(best = Some r \<or> fst r \<in> set cs) \<and> snd r = scorer q (fst r) \<and>
     (\<forall>c \<in> set cs. scorer q c \<le> snd r) \<and> (\<forall>b. best = Some b \<longrightarrow> snd b \<le> snd r)"
  using assms
proof (induction cs arbitrary: best)
  case Nil
  then show ?case by simp
next
  case (Cons c cs)
  show ?case
  proof (cases "case best of None \<Rightarrow> True | Some b \<Rightarrow> snd b < scorer q c")
    case True
    with Cons.prems(1) have run: "extract_loop scorer q cs (Some (c, scorer q c)) = Some r"
      by simp
    from Cons.IH[OF run] have ih: "(Some (c, scorer q c) = Some r \<or> fst r \<in> set cs)"
      "snd r = scorer q (fst r)" "\<forall>c \<in> set cs. scorer q c \<le> snd r" "scorer q c \<le> snd r"
      by auto
    with True show ?thesis by (auto split: option.splits)
  next
    case False
    with Cons.prems(1) have run: "extract_loop scorer q cs best = Some r"
      by simp
    from Cons.IH[OF run Cons.prems(2)] have ih: "best = Some r \<or> fst r \<in> set cs"
      "snd r = scorer q (fst r)" "\<forall>c \<in> set cs. scorer q c \<le> snd r"
      "\<forall>b. best = Some b \<longrightarrow> snd b \<le> snd r"
      by auto
    with False show ?thesis by (auto split: option.splits)
  qed
qed

lemma extractOne_best:
  assumes "extractOne scorer q cs = Some r"
  shows "fst r \<in> set cs" and "\<forall>c \<in> set cs. scorer q c \<le> scorer q (fst r)"
proof -
  have run: "extract_loop scorer q cs None = Some r"
    using assms by (simp add: extractOne_def)
  have none: "\<And>b. None = Some b \<Longrightarrow> snd b = scorer q (fst b)"
    by simp
  note facts = extract_loop_best[OF run none]
  from facts show "fst r \<in> set cs" by simp
  from facts have "snd r = scorer q (fst r)" and "\<forall>c \<in> set cs. scorer q c \<le> snd r"
    by blast+
  then show "\<forall>c \<in> set cs. scorer q c \<le> scorer q (fst r)" by simp
qed

lemma fuzzy_fallback_empty: "fuzzy_fallback scorer [] s = lower s"
  by (simp add: fuzzy_fallback_def extractOne_def)

lemma fuzzy_fallback_max:
  assumes "vocab \<noteq> []"
  shows "fuzzy_fallback scorer vocab s \<in> set vocab \<and>
     (\<forall>v \<in> set vocab. scorer s v \<le> scorer s (fuzzy_fallback scorer vocab s))"
proof -
  from assms obtain r where r: "extractOne scorer s vocab = Some r"
    using extractOne_None_iff[of scorer s vocab] by auto
  have "fuzzy_fallback scorer vocab s = fst r"
    by (simp add: fuzzy_fallback_def r)
  with extractOne_best[OF r] show ?thesis by simp
qed

lemma normalize_one_failed:
  "query_skill (strip raw) = Inl e \<Longrightarrow>
   normalize_one query_skill scorer vocab raw = fuzzy_fallback scorer vocab (strip raw)"
  by (simp add: normalize_one_def)

lemma normalize_one_answered:
  "query_skill (strip raw) = Inr (n0 # ns, d0 # ds) \<Longrightarrow>
   normalize_one query_skill scorer vocab raw =
     (if 6 / 10 < d0 then n0 else fuzzy_fallback scorer vocab (strip raw))"
  by (simp add: normalize_one_def)

text \<open>
  Claim C5. When the semantic lookup answers for a (stripped) skill with a first neighbour
  \<open>n0\<close> of similarity \<open>d0\<close>, the resolver takes \<open>n0\<close> exactly when \<open>d0\<close> is strictly
  above 0.6. At 0.6 or below the token is the one of the fuzzy path: with a non-empty
  vocabulary, a vocabulary token whose score against the skill is maximal.
\<close>

theorem semantic_threshold:
  assumes "query_skill (strip raw) = Inr (n0 # ns, d0 # ds)"
  shows "(6 / 10 < d0 \<longrightarrow> normalize_one query_skill scorer vocab raw = n0) \<and>
     (d0 \<le> 6 / 10 \<longrightarrow>
        normalize_one query_skill scorer vocab raw = fuzzy_fallback scorer vocab (strip raw) \<and>
        (vocab \<noteq> [] \<longrightarrow>
           fuzzy_fallback scorer vocab (strip raw) \<in> set vocab \<and>
           (\<forall>v \<in> set vocab.
              scorer (strip raw) v \<le> scorer (strip raw) (fuzzy_fallback scorer vocab (strip raw)))))"
proof -
  have eq: "normalize_one query_skill scorer vocab raw =
      (if 6 / 10 < d0 then n0 else fuzzy_fallback scorer vocab (strip raw))"
    using assms by (simp add: normalize_one_def)
  show ?thesis
    unfolding eq using fuzzy_fallback_max[of vocab scorer "strip raw"] by auto
qed

lemma strip_examples:
  "strip '' Python '' = ''Python''" "strip '' Rust '' = ''Rust''" "strip ''Python'' = ''Python''"
  "strip ''SQL'' = ''SQL''" "strip ''python'' = ''python''"
  by code_simp+

lemma lower_examples:
  "lower ''Python'' = ''python''" "lower ''Rust'' = ''rust''" "lower ''SQL'' = ''sql''"
  "lower ''python'' = ''python''"
  by code_simp+

theorem semantic_threshold_witness:
  "stale_index (strip '' Python '') = Inr ([''sql''], [6 / 10]) \<and>
   (6 / 10 :: real) \<le> 6 / 10 \<and> [''python'', ''sql''] \<noteq> [] \<and>
   normalize_one stale_index prefers_python [''python'', ''sql''] '' Python '' =
     fuzzy_fallback prefers_python [''python'', ''sql''] (strip '' Python '') \<and>
   fuzzy_fallback prefers_python [''python'', ''sql''] (strip '' Python '') \<in>
     set [''python'', ''sql''] \<and>
   normalize_one stale_index prefers_python [''python'', ''sql''] '' Python '' = ''python''"
proof -
  have h: "stale_index (strip '' Python '') = Inr ([''sql''], [6 / 10])"
    by (simp add: stale_index_def)
  have v: "fuzzy_fallback prefers_python [''python'', ''sql''] (strip '' Python '') = ''python''"
    by (simp add: fuzzy_fallback_def extractOne_def prefers_python_def)
  show ?thesis
    using semantic_threshold[where query_skill = stale_index and raw = "'' Python ''"
        and scorer = prefers_python and vocab = "[''python'', ''sql'']", OF h] h v
    by simp
qed

lemma set_dedupe: "set (dedupe seen xs) = set seen \<union> set xs"
  by (induction xs arbitrary: seen) auto

lemma distinct_dedupe: "distinct seen \<Longrightarrow> distinct (dedupe seen xs)"
  by (induction xs arbitrary: seen) auto

lemma upt_0_Suc: "[0..<Suc n] = 0 # map Suc [0..<n]"
  by (simp add: upt_conv_Cons map_Suc_upt del: upt_Suc)

lemma dedupe_firsts:
  "dedupe seen xs =
     seen @ map (\<lambda>i. xs ! i) (filter (\<lambda>i. xs ! i \<notin> set seen \<union> set (take i xs)) [0..<length xs])"
proof (induction xs arbitrary: seen)
  case Nil
  then show ?case by simp
next
  case (Cons x xs)
  show ?case
  proof (cases "x \<in> set seen")
    case True
    then have absorb: "\<And>y Q. (y \<notin> set seen \<and> y \<noteq> x \<and> Q) = (y \<notin> set seen \<and> Q)"
      by auto
    from True Cons.IH[of seen] show ?thesis
      by (simp add: upt_0_Suc filter_map comp_def absorb del: upt_Suc)
  next
    case False
    have swap: "\<And>y Q. (y \<noteq> x \<and> y \<notin> set seen \<and> Q) = (y \<notin> set seen \<and> y \<noteq> x \<and> Q)"
      by auto
    from False Cons.IH[of "seen @ [x]"] show ?thesis
      by (simp add: upt_0_Suc filter_map comp_def swap del: upt_Suc)
  qed
qed

text \<open>
  Claim C9. The resolver's output has no repeated token, consists of the tokens of the
  input skills, and lists them in the order of their first appearance: it keeps exactly
  the positions whose token has not occurred at an earlier position. In particular three
  skills of which the first and the third resolve to one token, and the second to another,
  yield these two tokens in this order.
\<close>

theorem dedup_invariant:
  "distinct (normalize_skills query_skill scorer vocab raw_skills) \<and>
   set (normalize_skills query_skill scorer vocab raw_skills) =
     normalize_one query_skill scorer vocab ` set raw_skills \<and>
   normalize_skills query_skill scorer vocab raw_skills =
     map (\<lambda>i. normalize_one query_skill scorer vocab (raw_skills ! i))
       (filter (\<lambda>i. normalize_one query_skill scorer vocab (raw_skills ! i) \<notin>
                      normalize_one query_skill scorer vocab ` set (take i raw_skills))
          [0..<length raw_skills]) \<and>
   (normalize_one query_skill scorer vocab a = normalize_one query_skill scorer vocab c \<and>
    normalize_one query_skill scorer vocab a \<noteq> normalize_one query_skill scorer vocab b \<longrightarrow>
      normalize_skills query_skill scorer vocab [a, b, c] =
        [normalize_one query_skill scorer vocab a, normalize_one query_skill scorer vocab b])"
proof -
  let ?f = "normalize_one query_skill scorer vocab"
  have order: "dedupe [] (map ?f raw_skills) =
      map (\<lambda>i. ?f (raw_skills ! i))
        (filter (\<lambda>i. ?f (raw_skills ! i) \<notin> ?f ` set (take i raw_skills)) [0..<length raw_skills])"
  proof -
    have "dedupe [] (map ?f raw_skills) =
        map (\<lambda>i. map ?f raw_skills ! i)
          (filter (\<lambda>i. map ?f raw_skills ! i \<notin> set (take i (map ?f raw_skills)))
             [0..<length raw_skills])"
      using dedupe_firsts[of "[]" "map ?f raw_skills"] by simp
    also have "\<dots> = map (\<lambda>i. ?f (raw_skills ! i))
          (filter (\<lambda>i. ?f (raw_skills ! i) \<notin> ?f ` set (take i raw_skills)) [0..<length raw_skills])"
      by (intro map_cong filter_cong refl) (auto simp: take_map)
    finally show ?thesis .
  qed
  have d: "distinct (normalize_skills query_skill scorer vocab raw_skills)"
    by (simp add: normalize_skills_def distinct_dedupe)
  have st: "set (normalize_skills query_skill scorer vocab raw_skills) = ?f ` set raw_skills"
    by (simp add: normalize_skills_def set_dedupe)
  have ord: "normalize_skills query_skill scorer vocab raw_skills =
      map (\<lambda>i. ?f (raw_skills ! i))
        (filter (\<lambda>i. ?f (raw_skills ! i) \<notin> ?f ` set (take i raw_skills)) [0..<length raw_skills])"
    unfolding normalize_skills_def by (rule order)
  have ex: "?f a = ?f c \<and> ?f a \<noteq> ?f b \<longrightarrow>
      normalize_skills query_skill scorer vocab [a, b, c] = [?f a, ?f b]"
    by (simp add: normalize_skills_def)
  from d st ord ex show ?thesis by blast
qed

theorem dedup_invariant_witness:
  "normalize_one no_index exact_lower [''python'', ''sql''] ''Python'' =
     normalize_one no_index exact_lower [''python'', ''sql''] ''python'' \<and>
   normalize_one no_index exact_lower [''python'', ''sql''] ''Python'' \<noteq>
     normalize_one no_index exact_lower [''python'', ''sql''] ''SQL'' \<and>
   normalize_skills no_index exact_lower [''python'', ''sql''] [''Python'', ''SQL'', ''python''] =
     [''python'', ''sql'']"
proof -
  have v: "normalize_one no_index exact_lower [''python'', ''sql''] ''Python'' = ''python''"
    "normalize_one no_index exact_lower [''python'', ''sql''] ''SQL'' = ''sql''"
    "normalize_one no_index exact_lower [''python'', ''sql''] ''python'' = ''python''"
    by (simp_all add: normalize_one_def no_index_def fuzzy_fallback_def extractOne_def
        exact_lower_def strip_examples lower_examples)
  show ?thesis
    using dedup_invariant[where query_skill = no_index and scorer = exact_lower
        and vocab = "[''python'', ''sql'']" and a = "''Python''" and b = "''SQL''"
        and c = "''python''"] v
    by simp
qed

text \<open>
  Claim C6. Whatever the semantic lookup does (it may raise for any skill), the resolver
  returns, and the token of every input skill is in its result. A skill whose lookup
  raises gets the token of the fuzzy path; with an empty vocabulary that is the stripped,
  lower-cased skill itself, otherwise a vocabulary token of maximal score.
\<close>

theorem resolution_never_aborts:
  "normalize_one query_skill scorer vocab ` set raw_skills =
     set (normalize_skills query_skill scorer vocab raw_skills) \<and>
   (\<forall>raw e. query_skill (strip raw) = Inl e \<longrightarrow>
      normalize_one query_skill scorer vocab raw = fuzzy_fallback scorer vocab (strip raw)) \<and>
   (\<forall>s. fuzzy_fallback scorer [] s = lower s) \<and>
   (vocab \<noteq> [] \<longrightarrow>
      (\<forall>s. fuzzy_fallback scorer vocab s \<in> set vocab \<and>
           (\<forall>v \<in> set vocab. scorer s v \<le> scorer s (fuzzy_fallback scorer vocab s))))"
proof -
  have tokens: "normalize_one query_skill scorer vocab ` set raw_skills =
      set (normalize_skills query_skill scorer vocab raw_skills)"
    by (simp add: normalize_skills_def set_dedupe)
  have failed: "\<forall>raw e. query_skill (strip raw) = Inl e \<longrightarrow>
      normalize_one query_skill scorer vocab raw = fuzzy_fallback scorer vocab (strip raw)"
    by (simp add: normalize_one_def)
  have raw: "\<forall>s. fuzzy_fallback scorer [] s = lower s"
    by (simp add: fuzzy_fallback_empty)
  have best: "vocab \<noteq> [] \<longrightarrow>
      (\<forall>s. fuzzy_fallback scorer vocab s \<in> set vocab \<and>
           (\<forall>v \<in> set vocab. scorer s v \<le> scorer s (fuzzy_fallback scorer vocab s)))"
    using fuzzy_fallback_max[of vocab scorer] by blast
  from tokens failed raw best show ?thesis by blast
qed

theorem resolution_never_aborts_witness:
  "flaky_index (strip '' Rust '') = Inl (CollaboratorError ''index read failed'') \<and>
   normalize_one flaky_index prefers_python [] '' Rust '' = ''rust'' \<and>
   set (normalize_skills flaky_index prefers_python [] [''Python'', '' Rust '']) =
     {''python'', ''rust''} \<and>
   [''python'', ''sql''] \<noteq> [] \<and>
   fuzzy_fallback prefers_python [''python'', ''sql''] ''Rust'' \<in> set [''python'', ''sql'']"
proof -
  have h: "flaky_index (strip '' Rust '') = Inl (CollaboratorError ''index read failed'')"
    by (simp add: flaky_index_def strip_examples)
  have p: "normalize_one flaky_index prefers_python [] ''Python'' = ''python''"
    by (simp add: normalize_one_def flaky_index_def strip_examples)
  note empty_vocab =
    resolution_never_aborts[of flaky_index prefers_python "[]" "[''Python'', '' Rust '']"]
  note with_vocab =
    resolution_never_aborts[of flaky_index prefers_python "[''python'', ''sql'']" "[]"]
  from empty_vocab h
  have r: "normalize_one flaky_index prefers_python [] '' Rust '' =
      fuzzy_fallback prefers_python [] (strip '' Rust '')"
    by blast
  from empty_vocab
  have l: "fuzzy_fallback prefers_python [] (strip '' Rust '') = lower (strip '' Rust '')"
    by blast
  from empty_vocab
  have s: "set (normalize_skills flaky_index prefers_python [] [''Python'', '' Rust '']) =
      normalize_one flaky_index prefers_python [] ` set [''Python'', '' Rust '']"
    by simp
  have n: "[''python'', ''sql''] \<noteq> ([] :: string list)"
    by simp
  from with_vocab n
  have m: "fuzzy_fallback prefers_python [''python'', ''sql''] ''Rust'' \<in> set [''python'', ''sql'']"
    by blast
  from r l have rust: "normalize_one flaky_index prefers_python [] '' Rust '' = ''rust''"
    by (simp add: strip_examples lower_examples)
  show ?thesis
    using h rust s p m by simp
qed

section \<open>Scoring and selection\<close>

lemma starts_with_prefix: "starts_with k t \<longleftrightarrow> prefix k t"
  by (induction k t rule: starts_with.induct) simp_all

lemma str_in_sublist: "str_in k t \<longleftrightarrow> sublist k t"
  by (induction t) (simp_all add: starts_with_prefix sublist_Cons_right)

text \<open>
  Claim C2, as amended. The score of an occupation is the number of resolved skills that
  occur among its lower-cased skills, divided by the larger of 1 and the length of its
  skill list (every entry counts, repeated ones too), plus 0.2 exactly when one of the
  first five lower-cased skills is a contiguous part of the lower-cased summary.
\<close>

theorem career_score_formula:
  "career_score skills summary c =
     real (card (set skills \<inter> set (map lower (get_list (c_skills c))))) /
       real (max 1 (length (get_list (c_skills c)))) +
     (if \<exists>k \<in> set (take 5 (map lower (get_list (c_skills c)))).
           sublist k (lower (case summary of None \<Rightarrow> [] | Some t \<Rightarrow> t))
      then 2 / 10 else 0)"
proof -
  have divisor: "max 1 (if length (map lower (get_list (c_skills c))) \<noteq> 0
        then length (map lower (get_list (c_skills c))) else 1) =
      max 1 (length (get_list (c_skills c)))"
    by simp
  show ?thesis
    unfolding career_score_def Let_def divisor
    by (simp only: list_ex_iff str_in_sublist)
qed

lemma lower_sql: "lower ''SQL'' = ''sql''" "lower ''sql'' = ''sql''" "lower [] = []"
  by code_simp+

text \<open>
  Claim C2 as stated divides by the size of the skill vocabulary as a set. For an
  occupation whose skill list is \<open>SQL, sql\<close> and the resolved skill \<open>sql\<close> the code
  yields one half, the claimed formula one.
\<close>

theorem career_score_counterexample:
  "career_score [''sql''] None dba = 1 / 2 \<and>
   real (card (set [''sql''] \<inter> set (map lower (get_list (c_skills dba))))) /
     real (max 1 (card (set (map lower (get_list (c_skills dba)))))) = 1"
  by (simp add: career_score_def dba_def get_list_def lower_sql)

lemma lower_data_analyst:
  "lower ''python'' = ''python''" "lower ''data visualization'' = ''data visualization''"
  "lower ''pandas'' = ''pandas''" "lower ''I like SQL'' = ''i like sql''"
  by code_simp+

lemma sublist_examples:
  "\<not> sublist ''python'' ''i like sql''" "sublist ''sql'' ''i like sql''"
  by code_simp+

theorem career_score_formula_witness:
  "career_score [''python'', ''sql''] (Some ''I like SQL'') data_analyst = 7 / 10"
  using career_score_formula[of "[''python'', ''sql'']" "Some ''I like SQL''" data_analyst]
  by (simp add: data_analyst_def get_list_def lower_data_analyst lower_sql sublist_examples)

lemma last_insort_key:
  "sorted (map f ws) \<Longrightarrow>
   last (insort_key f z ws) = (if ws = [] \<or> f (last ws) < f z then z else last ws)"
proof (induction ws)
  case Nil
  then show ?case by simp
next
  case (Cons w ws)
  show ?case
  proof (cases "f z \<le> f w")
    case True
    have "f w \<le> f (last (w # ws))"
      using Cons.prems by (cases ws) auto
    with True show ?thesis by auto
  next
    case False
    with Cons show ?thesis by (cases ws) auto
  qed
qed

lemma sort_key_last_split:
  "zs \<noteq> [] \<Longrightarrow>
   \<exists>pre post. zs = pre @ last (sort_key f zs) # post \<and>
     (\<forall>p \<in> set pre. f p \<le> f (last (sort_key f zs))) \<and>
     (\<forall>p \<in> set post. f p < f (last (sort_key f zs)))"
proof (induction zs)
  case Nil
  then show ?case by simp
next
  case (Cons z zs)
  show ?case
  proof (cases "zs = []")
    case True
    then show ?thesis
      by (intro exI[of _ "[]"]) simp
  next
    case False
    let ?c = "last (sort_key f zs)"
    from Cons.IH[OF False] obtain pre post where
      split: "zs = pre @ ?c # post" and
      pre: "\<forall>p \<in> set pre. f p \<le> f ?c" and post: "\<forall>p \<in> set post. f p < f ?c"
      by blast
    have ne: "sort_key f zs \<noteq> []"
      using False by (metis length_0_conv length_sort)
    have l: "last (sort_key f (z # zs)) = (if f ?c < f z then z else ?c)"
      using last_insort_key[of f "sort_key f zs" z] ne by simp
    show ?thesis
    proof (cases "f ?c < f z")
      case True
      have "\<forall>p \<in> set zs. f p < f z"
      proof
        fix p assume "p \<in> set zs"
        then have "p \<in> set pre \<or> p = ?c \<or> p \<in> set post"
          by (subst (asm) split) auto
        with pre post have "f p \<le> f ?c" by auto
        with True show "f p < f z" by simp
      qed
      with True l show ?thesis
        by (intro exI[of _ "[]"] exI[of _ zs]) simp
    next
      case False
      then have "f z \<le> f ?c" by simp
      with False l pre post split show ?thesis
        by (intro exI[of _ "z # pre"] exI[of _ post]) auto
    qed
  qed
qed

lemma select_top_last:
  assumes "corpus \<noteq> []"
  shows "select_top corpus skills summary =
     Inr (fst (last (sort_key snd (rev (map (\<lambda>c. (c, career_score skills summary c)) corpus)))))"
proof -
  let ?zs = "rev (map (\<lambda>c. (c, career_score skills summary c)) corpus)"
  have "sort_key snd ?zs \<noteq> []"
    using assms by (metis length_0_conv length_sort length_rev length_map)
  then obtain x xs where r: "rev (sort_key snd ?zs) = x # xs" and x: "x = last (sort_key snd ?zs)"
    by (metis hd_rev list.collapse rev_is_Nil_conv)
  show ?thesis
    unfolding select_top_def sort_reverse_def Let_def r x[symmetric] by simp
qed

text \<open>
  Claim C8. On a non-empty corpus the matcher returns an occupation of maximal score, and
  among those the first in corpus order: every occupation before it scores strictly less,
  every occupation after it scores at most as much. The matcher is a function of the
  corpus, the skills and the summary, so repeated calls agree.
\<close>

theorem select_top_first_maximum:
  assumes "corpus \<noteq> []"
  shows "\<exists>before c after. corpus = before @ c # after \<and>
     select_top corpus skills summary = Inr c \<and>
     (\<forall>b \<in> set before. career_score skills summary b < career_score skills summary c) \<and>
     (\<forall>a \<in> set after. career_score skills summary a \<le> career_score skills summary c)"
proof -
  let ?g = "\<lambda>c. (c, career_score skills summary c)"
  let ?zs = "rev (map ?g corpus)"
  let ?m = "last (sort_key snd ?zs)"
  have "?zs \<noteq> []" using assms by simp
  from sort_key_last_split[OF this, of snd] obtain pre post where
    split: "?zs = pre @ ?m # post" and
    pre: "\<forall>p \<in> set pre. snd p \<le> snd ?m" and post: "\<forall>p \<in> set post. snd p < snd ?m"
    by blast
  from split have "map ?g (rev corpus) = pre @ ?m # post"
    by (simp add: rev_map)
  then obtain pre' c post' where
    rc: "rev corpus = pre' @ c # post'" and p1: "pre = map ?g pre'" and m: "?m = ?g c"
    and p2: "post = map ?g post'"
    by (auto simp: map_eq_append_conv map_eq_Cons_conv)
  from rc have "rev (rev corpus) = rev (pre' @ c # post')" by simp
  then have corpus: "corpus = rev post' @ c # rev pre'" by simp
  have top: "select_top corpus skills summary = Inr c"
    using select_top_last[OF assms, of skills summary] m by simp
  have before: "\<forall>b \<in> set (rev post'). career_score skills summary b < career_score skills summary c"
    using post p2 m by auto
  have after: "\<forall>a \<in> set (rev pre'). career_score skills summary a \<le> career_score skills summary c"
    using pre p1 m by auto
  from corpus top before after show ?thesis by blast
qed

lemma lower_Nil_iff: "lower s = [] \<longleftrightarrow> s = []"
  by (simp add: lower_def)

lemma no_skills_no_context_score:
  "career_score [] None data_analyst = 0" "career_score [] None tutor = 0"
  by (simp_all add: career_score_def data_analyst_def tutor_def get_list_def lower_Nil_iff
      lower_sql(3))

theorem select_top_first_maximum_witness:
  "[data_analyst, tutor] \<noteq> [] \<and>
   career_score [] None data_analyst = career_score [] None tutor \<and>
   select_top [data_analyst, tutor] [] None = Inr data_analyst"
proof -
  have ne: "[data_analyst, tutor] \<noteq> []" by simp
  from select_top_first_maximum[OF ne, of "[]" None] obtain before c after where
    split: "[data_analyst, tutor] = before @ c # after" and
    top: "select_top [data_analyst, tutor] [] None = Inr c" and
    less: "\<forall>b \<in> set before. career_score [] None b < career_score [] None c"
    by blast
  from split have "(before = [] \<and> c = data_analyst) \<or> (before = [data_analyst] \<and> c = tutor)"
    by (auto simp: Cons_eq_append_conv)
  with less have "c = data_analyst"
    by (auto simp: no_skills_no_context_score)
  with top show ?thesis by (simp add: no_skills_no_context_score)
qed

section \<open>Export failures\<close>

lemma select_top_single: "select_top [c] skills summary = Inr c"
  by (simp add: select_top_def sort_reverse_def)

lemma compute_output_single:
  assumes "c_career c = Some name"
  shows "\<exists>out g'. compute_output query_skill scorer [c] inp g = Inr (out, g')"
  by (simp add: compute_output_def Let_def select_top_single generate_distinct_roadmaps_eq assms)

lemma compute_output_Inr:
  assumes "compute_output query_skill scorer corpus inp g = Inr (out, g')"
  shows "length (roadmaps out) = 3"
proof -
  let ?sk = "normalize_skills query_skill scorer (SKILL_VOCAB corpus)
      (u_skills inp @ derive_skills_from_quiz (u_answers inp))"
  from assms obtain top_c where t: "select_top corpus ?sk (u_summary inp) = Inr top_c"
    by (cases "select_top corpus ?sk (u_summary inp)") (simp_all add: compute_output_def Let_def)
  obtain rms g1 where r: "generate_distinct_roadmaps ?sk top_c g = Inr (rms, g1)"
    and l: "length rms = 3"
    by (simp add: generate_distinct_roadmaps_eq)
  from assms t r have "roadmaps out = rms"
    by (cases "c_career top_c") (auto simp: compute_output_def Let_def)
  with l show ?thesis by simp
qed

lemma image_urls_3:
  "map (\<lambda>idx. ''/static/roadmaps/roadmap_'' @ str_nat (idx + 1) @ ''.png'') [0..<3] =
     [''/static/roadmaps/roadmap_1.png'', ''/static/roadmaps/roadmap_2.png'',
      ''/static/roadmaps/roadmap_3.png'']"
  by (simp add: upt_rec digit_char_def)

lemma plot_roadmaps_3:
  assumes "length rms = 3"
  shows "plot_roadmaps ex rms =
     (case draw ex rms of
        Some e \<Rightarrow> Inl e
      | None \<Rightarrow> Inr [''/static/roadmaps/roadmap_1.png'', ''/static/roadmaps/roadmap_2.png'',
                     ''/static/roadmaps/roadmap_3.png''])"
  unfolding plot_roadmaps_def assms image_urls_3 by (rule refl)

text \<open>
  Claim C4, as amended. When the roadmap computation has succeeded with result \<open>out\<close>
  (which holds three roadmaps), the handler goes on to draw the diagrams and to dump the
  result twice, outside any \<open>try\<close>. The caller receives \<open>out\<close>, completed with the three
  image URLs and otherwise unchanged, exactly when the three export steps succeed; the
  error of the first step that fails is what the caller receives instead.
\<close>

theorem export_failure_propagates:
  assumes "compute_output query_skill scorer corpus inp g = Inr (out, g')"
  shows "length (roadmaps out) = 3 \<and>
     (\<forall>e. draw ex (roadmaps out) = Some e \<longrightarrow>
        generate_roadmaps_for_user ex query_skill scorer corpus inp g = Inl e) \<and>
     (\<forall>out'. out' = out\<lparr>images := Some [''/static/roadmaps/roadmap_1.png'',
          ''/static/roadmaps/roadmap_2.png'', ''/static/roadmaps/roadmap_3.png'']\<rparr> \<longrightarrow>
        (\<forall>e. draw ex (roadmaps out) = None \<and> dump_latest ex out' = Some e \<longrightarrow>
           generate_roadmaps_for_user ex query_skill scorer corpus inp g = Inl e) \<and>
        (\<forall>e. draw ex (roadmaps out) = None \<and> dump_latest ex out' = None \<and>
             dump_archive ex out' = Some e \<longrightarrow>
           generate_roadmaps_for_user ex query_skill scorer corpus inp g = Inl e) \<and>
        (draw ex (roadmaps out) = None \<and> dump_latest ex out' = None \<and>
         dump_archive ex out' = None \<longrightarrow>
           generate_roadmaps_for_user ex query_skill scorer corpus inp g = Inr (out', g')))"
proof -
  have len: "length (roadmaps out) = 3"
    by (rule compute_output_Inr[OF assms])
  show ?thesis
    using len
    by (simp add: generate_roadmaps_for_user_def assms export_output_def plot_roadmaps_3[OF len]
        Let_def)
qed

text \<open>
  Claim C4 as stated fails: for a request on which the computation succeeds, a plotter
  that raises makes the whole handler raise, and the computed result is lost.
\<close>

theorem export_failure_counterexample:
  "\<not> isl (compute_output no_index exact_lower [data_analyst] request []) \<and>
   generate_roadmaps_for_user broken_plotter no_index exact_lower [data_analyst] request [] =
     Inl (CollaboratorError ''savefig failed'')"
proof -
  have "c_career data_analyst = Some ''Data Analyst''"
    by (simp add: data_analyst_def)
  from compute_output_single[OF this, of no_index exact_lower request "[]"]
  obtain out g' where
    c: "compute_output no_index exact_lower [data_analyst] request [] = Inr (out, g')"
    by blast
  then show ?thesis
    by (simp add: generate_roadmaps_for_user_def export_output_def plot_roadmaps_def
        broken_plotter_def)
qed

theorem export_failure_propagates_witness:
  "compute_output no_index exact_lower [data_analyst] request [] =
     Inr (projr (compute_output no_index exact_lower [data_analyst] request [])) \<and>
   length (roadmaps (fst (projr (compute_output no_index exact_lower [data_analyst] request [])))) = 3 \<and>
   generate_roadmaps_for_user quiet_exporter no_index exact_lower [data_analyst] request [] =
     Inr ((fst (projr (compute_output no_index exact_lower [data_analyst] request [])))
            \<lparr>images := Some [''/static/roadmaps/roadmap_1.png'',
               ''/static/roadmaps/roadmap_2.png'', ''/static/roadmaps/roadmap_3.png'']\<rparr>,
          snd (projr (compute_output no_index exact_lower [data_analyst] request [])))"
proof -
  let ?r = "compute_output no_index exact_lower [data_analyst] request []"
  have "c_career data_analyst = Some ''Data Analyst''"
    by (simp add: data_analyst_def)
  from compute_output_single[OF this, of no_index exact_lower request "[]"]
  obtain out g' where c: "?r = Inr (out, g')"
    by blast
  then have h: "?r = Inr (fst (projr ?r), snd (projr ?r))"
    by simp
  show ?thesis
    using export_failure_propagates[OF h, of quiet_exporter] c
    by (simp add: quiet_exporter_def)
qed

section \<open>The empty corpus\<close>











end
